theory Spec2Isabelle
  imports Main "HOL-Library.Word"
begin

section \<open>The UOA SASL authentication handler of libempathy\<close>

text \<open>
  A shallow embedding of \<^verbatim>\<open>libempathy/empathy-uoa-auth-handler.c\<close>.

  The file is glue between three collaborators: the account store (libaccounts-glib),
  the single sign-on daemon (libsignon-glib) and a Telepathy channel that asks for SASL
  authentication. What the code does is issue calls to them, in an order that depends on
  their answers. Each C function is therefore embedded as a function that returns the
  list of calls it issues, in program order (a trace of events). An asynchronous call
  carries the callback and the user data registered with it, so that the continuation
  of a flow can be read off the trace. The answers of the collaborators are arguments.

  Pointers that the code compares with \<^verbatim>\<open>NULL\<close>, or that may be
  \<^verbatim>\<open>NULL\<close> where the code uses them, are options. The
  \<^verbatim>\<open>DEBUG\<close> log lines have no effect on the calls issued and are left out.
\<close>

subsection \<open>Values and objects of the collaborators\<close>

text \<open>A \<^verbatim>\<open>GValue\<close>, restricted to the types this file stores or reads.\<close>

datatype GValue = GString string | GInt int | GUInt "32 word"

text \<open>An "asv": a \<^verbatim>\<open>GHashTable\<close> from strings to \<^verbatim>\<open>GValue\<close>s.\<close>

type_synonym GHashTable = "string \<rightharpoonup> GValue"

record GError =
  error_code :: int
  error_message :: string

text \<open>
  The enumeration \<^verbatim>\<open>EmpathySaslMechanism\<close> is declared in
  \<^verbatim>\<open>empathy-sasl-mechanisms.h\<close>. This file names three of its values; the
  specification names a fourth, \<^verbatim>\<open>UNSUPPORTED\<close>. A C enumeration is an
  integer, so every further value is kept as \<open>EMPATHY_SASL_MECHANISM_OTHER n\<close>.
\<close>

datatype EmpathySaslMechanism =
    EMPATHY_SASL_MECHANISM_UNSUPPORTED
  | EMPATHY_SASL_MECHANISM_FACEBOOK
  | EMPATHY_SASL_MECHANISM_WLM
  | EMPATHY_SASL_MECHANISM_GOOGLE
  | EMPATHY_SASL_MECHANISM_OTHER nat

text \<open>
  A channel, as far as this file looks at it: its object path and the SASL mechanism
  negotiated on it.
\<close>

record TpChannel =
  object_path :: string
  negotiated_mechanism :: EmpathySaslMechanism

text \<open>
  A Telepathy account: the storage provider (a string that may be \<^verbatim>\<open>NULL\<close>)
  and the storage identifier (a \<^verbatim>\<open>GValue\<close> that may be \<^verbatim>\<open>NULL\<close>).
\<close>

record TpAccount =
  storage_provider :: "string option"
  storage_identifier :: "GValue option"

type_synonym AgAccountId = "32 word"

record AgService =
  service_name :: string
  service_type :: string

record AgAccount =
  account_id :: AgAccountId
  services :: "AgService list"

record AgAccountService =
  as_account :: AgAccount
  as_service :: AgService

record AgAuthData =
  credentials_id :: "32 word"
  auth_method :: string
  auth_mechanism :: string
  parameters :: GHashTable

record SignonIdentity =
  identity_id :: "32 word"

record SignonAuthSession =
  session_identity :: SignonIdentity
  session_method :: string

record SignonIdentityInfo =
  info_username :: "string option"

text \<open>The account manager of the handler, queried by account id.\<close>

type_synonym AgManager = "AgAccountId \<Rightarrow> AgAccount option"

text \<open>\<^verbatim>\<open>struct _EmpathyUoaAuthHandlerPriv\<close>.\<close>

record EmpathyUoaAuthHandler =
  manager :: AgManager

text \<open>\<^verbatim>\<open>AuthContext\<close>: the state carried across the asynchronous steps.\<close>

record AuthContext =
  channel :: TpChannel
  auth_data :: AgAuthData
  session :: SignonAuthSession
  identity :: SignonIdentity
  username :: "string option"

text \<open>
  Constants that the file takes from headers outside it:
  \<^verbatim>\<open>EMPATHY_UOA_PROVIDER\<close> and \<^verbatim>\<open>EMPATHY_UOA_SERVICE_TYPE\<close>
  (\<^verbatim>\<open>empathy-uoa-utils.h\<close>), \<^verbatim>\<open>SIGNON_SESSION_DATA_UI_POLICY\<close> and
  \<^verbatim>\<open>SIGNON_POLICY_REQUEST_PASSWORD\<close> (libsignon-glib). Their values are
  parameters of the model.
\<close>

record uoa_constants =
  EMPATHY_UOA_PROVIDER :: string
  EMPATHY_UOA_SERVICE_TYPE :: string
  SIGNON_SESSION_DATA_UI_POLICY :: string
  SIGNON_POLICY_REQUEST_PASSWORD :: int

text \<open>
  What the synchronous collaborators answer during \<^verbatim>\<open>start\<close>:
  \<^verbatim>\<open>ag_account_service_get_auth_data\<close>, and
  \<^verbatim>\<open>signon_identity_create_session\<close>, which returns either a session or
  \<^verbatim>\<open>NULL\<close> with the error set (\<open>Inl\<close>).
\<close>

record collaborators =
  ag_account_service_get_auth_data :: "AgAccountService \<Rightarrow> AgAuthData"
  signon_identity_create_session :: "SignonIdentity \<Rightarrow> string \<Rightarrow> GError + SignonAuthSession"

subsection \<open>The calls issued\<close>

datatype gobject =
    Obj_channel TpChannel
  | Obj_account AgAccount
  | Obj_account_service AgAccountService
  | Obj_identity SignonIdentity
  | Obj_session SignonAuthSession

text \<open>The three callbacks that this file registers.\<close>

datatype callback = Identity_query_info_cb | Session_process_cb | Auth_cb

text \<open>
  One constructor for each library call with an effect. The argument of a release is an
  option where the code may pass \<^verbatim>\<open>NULL\<close>. An asynchronous call records its
  callback and user data; \<^verbatim>\<open>signon_auth_session_process\<close> is also called
  with both \<^verbatim>\<open>NULL\<close>, which is \<open>None\<close>.
\<close>

datatype event =
    G_return_if_fail_warning string
  | G_object_ref gobject
  | G_object_unref "gobject option"
  | Ag_auth_data_ref AgAuthData
  | Ag_auth_data_unref AgAuthData
  | Ag_service_list_free "AgService list"
  | G_slice_new0_AuthContext
  | G_slice_free_AuthContext AuthContext
  | G_free "string option"
  | G_hash_table_unref GHashTable
  | Tp_channel_close_async TpChannel
  | Signon_identity_query_info SignonIdentity callback AuthContext
  | Signon_auth_session_process SignonAuthSession GHashTable string "(callback \<times> AuthContext) option"
  | Empathy_sasl_auth_facebook_async TpChannel "string option" "string option" callback AuthContext
  | Empathy_sasl_auth_wlm_async TpChannel "string option" callback AuthContext
  | Empathy_sasl_auth_google_async TpChannel "string option" "string option" callback AuthContext
  | G_assert_not_reached

subsection \<open>Library functions the file calls\<close>

text \<open>\<^verbatim>\<open>tp_strdiff\<close>: two strings differ; \<^verbatim>\<open>NULL\<close> equals only itself.\<close>

definition tp_strdiff :: "string option \<Rightarrow> string option \<Rightarrow> bool" where
  "tp_strdiff a b = (a \<noteq> b)"

text \<open>
  \<^verbatim>\<open>tp_asv_get_string\<close>: the string stored under a key, \<^verbatim>\<open>NULL\<close> when the
  key is absent or its value is not a string.
\<close>

definition tp_asv_get_string :: "GHashTable \<Rightarrow> string \<Rightarrow> string option" where
  "tp_asv_get_string asv key = (case asv key of Some (GString s) \<Rightarrow> Some s | _ \<Rightarrow> None)"

text \<open>\<^verbatim>\<open>g_value_get_uint\<close>: 0 unless the value holds an unsigned integer.\<close>

definition g_value_get_uint :: "GValue option \<Rightarrow> 32 word" where
  "g_value_get_uint v = (case v of Some (GUInt n) \<Rightarrow> n | _ \<Rightarrow> 0)"

text \<open>\<^verbatim>\<open>ag_account_list_services_by_type\<close>; the empty list is \<^verbatim>\<open>NULL\<close>.\<close>

definition ag_account_list_services_by_type :: "AgAccount \<Rightarrow> string \<Rightarrow> AgService list" where
  "ag_account_list_services_by_type account ty = filter (\<lambda>s. service_type s = ty) (services account)"

definition ag_account_service_new :: "AgAccount \<Rightarrow> AgService \<Rightarrow> AgAccountService" where
  "ag_account_service_new account service = \<lparr>as_account = account, as_service = service\<rparr>"

definition signon_identity_new_from_db :: "32 word \<Rightarrow> SignonIdentity" where
  "signon_identity_new_from_db cred_id = \<lparr>identity_id = cred_id\<rparr>"

text \<open>
  \<^verbatim>\<open>signon_identity_info_get_username\<close> and \<^verbatim>\<open>g_strdup\<close>, both of which
  hand \<^verbatim>\<open>NULL\<close> through.
\<close>

definition signon_identity_info_get_username :: "SignonIdentityInfo option \<Rightarrow> string option" where
  "signon_identity_info_get_username info = (case info of None \<Rightarrow> None | Some i \<Rightarrow> info_username i)"

definition g_strdup :: "string option \<Rightarrow> string option" where
  "g_strdup s = s"

text \<open>
  \<^verbatim>\<open>tp_asv_new (key, G_TYPE_INT, value, NULL)\<close>, and
  \<^verbatim>\<open>ag_auth_data_insert_parameters\<close>, which stores every given entry in the
  parameters of the auth data; a given entry replaces one of the same key.
\<close>

definition tp_asv_new_int :: "string \<Rightarrow> int \<Rightarrow> GHashTable" where
  "tp_asv_new_int key v = [key \<mapsto> GInt v]"

definition ag_auth_data_insert_parameters :: "AgAuthData \<Rightarrow> GHashTable \<Rightarrow> AgAuthData" where
  "ag_auth_data_insert_parameters ad extra = ad\<lparr>parameters := parameters ad ++ extra\<rparr>"

text \<open>
  Modelled from the spec: \<^verbatim>\<open>empathy_sasl_channel_select_mechanism\<close>
  (\<^verbatim>\<open>empathy-sasl-mechanisms.c\<close>, not part of the excerpt). The channel "exposes
  [its] negotiated SASL mechanism via a selection function".
\<close>

definition empathy_sasl_channel_select_mechanism :: "TpChannel \<Rightarrow> EmpathySaslMechanism" where
  "empathy_sasl_channel_select_mechanism ch = negotiated_mechanism ch"

text \<open>
  Modelled from the spec: \<^verbatim>\<open>empathy_sasl_auth_finish\<close>
  (\<^verbatim>\<open>empathy-sasl-mechanisms.c\<close>, not part of the excerpt). Each mechanism
  authentication "report[s] success/failure asynchronously": the result handed to the
  callback holds an error or none, and the function returns whether there is none.
\<close>

type_synonym GAsyncResult = "GError option"

definition empathy_sasl_auth_finish :: "TpChannel \<Rightarrow> GAsyncResult \<Rightarrow> bool" where
  "empathy_sasl_auth_finish ch result = (result = None)"

subsection \<open>The context\<close>

text \<open>\<^verbatim>\<open>auth_context_new\<close>: the context and the calls made to build it.\<close>

definition auth_context_new ::
  "TpChannel \<Rightarrow> AgAuthData \<Rightarrow> SignonAuthSession \<Rightarrow> SignonIdentity \<Rightarrow> AuthContext \<times> event list" where
  "auth_context_new ch ad s i =
     (\<lparr>channel = ch, auth_data = ad, session = s, identity = i, username = None\<rparr>,
      [G_slice_new0_AuthContext,
       G_object_ref (Obj_channel ch),
       Ag_auth_data_ref ad,
       G_object_ref (Obj_session s),
       G_object_ref (Obj_identity i)])"

definition auth_context_free :: "AuthContext \<Rightarrow> event list" where
  "auth_context_free ctx =
     [G_object_unref (Some (Obj_channel (channel ctx))),
      Ag_auth_data_unref (auth_data ctx),
      G_object_unref (Some (Obj_session (session ctx))),
      G_object_unref (Some (Obj_identity (identity ctx))),
      G_free (username ctx),
      G_slice_free_AuthContext ctx]"

definition auth_context_done :: "AuthContext \<Rightarrow> event list" where
  "auth_context_done ctx = Tp_channel_close_async (channel ctx) # auth_context_free ctx"

subsection \<open>The callbacks\<close>

text \<open>
  \<^verbatim>\<open>auth_cb\<close>. On failure the policy parameter is inserted into the auth data of
  the context, session processing is called once more with no callback, and the
  temporary table is released; in both cases the context is then done.
\<close>

definition auth_cb :: "uoa_constants \<Rightarrow> TpChannel \<Rightarrow> GAsyncResult \<Rightarrow> AuthContext \<Rightarrow> event list" where
  "auth_cb c source result ctx =
     (if \<not> empathy_sasl_auth_finish source result then
        (let extra_params =
               tp_asv_new_int (SIGNON_SESSION_DATA_UI_POLICY c) (SIGNON_POLICY_REQUEST_PASSWORD c);
             ctx' = ctx\<lparr>auth_data := ag_auth_data_insert_parameters (auth_data ctx) extra_params\<rparr>
         in [Signon_auth_session_process (session ctx')
               (parameters (auth_data ctx')) (auth_mechanism (auth_data ctx')) None,
             G_hash_table_unref extra_params]
            @ auth_context_done ctx')
      else auth_context_done ctx)"

text \<open>\<^verbatim>\<open>session_process_cb\<close>.\<close>

definition session_process_cb ::
  "SignonAuthSession \<Rightarrow> GHashTable \<Rightarrow> GError option \<Rightarrow> AuthContext \<Rightarrow> event list" where
  "session_process_cb s session_data error ctx =
     (if error \<noteq> None then auth_context_done ctx
      else
        (let access_token = tp_asv_get_string session_data ''AccessToken'';
             client_id = tp_asv_get_string (parameters (auth_data ctx)) ''ClientId''
         in case empathy_sasl_channel_select_mechanism (channel ctx) of
              EMPATHY_SASL_MECHANISM_FACEBOOK \<Rightarrow>
                [Empathy_sasl_auth_facebook_async (channel ctx) client_id access_token Auth_cb ctx]
            | EMPATHY_SASL_MECHANISM_WLM \<Rightarrow>
                [Empathy_sasl_auth_wlm_async (channel ctx) access_token Auth_cb ctx]
            | EMPATHY_SASL_MECHANISM_GOOGLE \<Rightarrow>
                [Empathy_sasl_auth_google_async (channel ctx) (username ctx) access_token Auth_cb ctx]
            | _ \<Rightarrow> [G_assert_not_reached]))"

text \<open>\<^verbatim>\<open>identity_query_info_cb\<close>.\<close>

definition identity_query_info_cb ::
  "SignonIdentity \<Rightarrow> SignonIdentityInfo option \<Rightarrow> GError option \<Rightarrow> AuthContext \<Rightarrow> event list" where
  "identity_query_info_cb i info error ctx =
     (if error \<noteq> None then auth_context_done ctx
      else
        (let ctx' = ctx\<lparr>username := g_strdup (signon_identity_info_get_username info)\<rparr>
         in [Signon_auth_session_process (session ctx')
               (parameters (auth_data ctx')) (auth_mechanism (auth_data ctx'))
               (Some (Session_process_cb, ctx'))]))"

subsection \<open>The entry points\<close>

text \<open>
  \<^verbatim>\<open>empathy_uoa_auth_handler_supports\<close>. The two type checks fail on
  \<^verbatim>\<open>NULL\<close>.
\<close>

definition empathy_uoa_auth_handler_supports ::
  "uoa_constants \<Rightarrow> EmpathyUoaAuthHandler \<Rightarrow> TpChannel option \<Rightarrow> TpAccount option \<Rightarrow> bool" where
  "empathy_uoa_auth_handler_supports c self ch account =
     (case ch of None \<Rightarrow> False
      | Some chv \<Rightarrow>
        (case account of None \<Rightarrow> False
         | Some acc \<Rightarrow>
           (if tp_strdiff (storage_provider acc) (Some (EMPATHY_UOA_PROVIDER c)) then False
            else
              (let mech = empathy_sasl_channel_select_mechanism chv
               in mech = EMPATHY_SASL_MECHANISM_FACEBOOK \<or>
                  mech = EMPATHY_SASL_MECHANISM_WLM \<or>
                  mech = EMPATHY_SASL_MECHANISM_GOOGLE))))"

text \<open>
  \<^verbatim>\<open>empathy_uoa_auth_handler_start\<close>. The label \<^verbatim>\<open>cleanup\<close> is the
  function \<open>start_cleanup\<close>; the session it releases is \<^verbatim>\<open>NULL\<close> when session
  creation failed.

  The list \<^verbatim>\<open>l\<close> starts as \<^verbatim>\<open>NULL\<close> and is assigned only when the account
  is not \<^verbatim>\<open>NULL\<close>, so the test \<^verbatim>\<open>l == NULL\<close> succeeds when the account is
  \<^verbatim>\<open>NULL\<close> (the first branch below) or its list of services is empty (the
  second). In both the code passes \<^verbatim>\<open>account\<close> to \<^verbatim>\<open>g_object_unref\<close>,
  whatever it is, and closes the channel. The rest of the function, where the account
  and the first service \<^verbatim>\<open>l->data\<close> exist, is \<open>start_with_service\<close>.
\<close>

definition start_cleanup ::
  "AgAuthData \<Rightarrow> AgAccountService \<Rightarrow> SignonIdentity \<Rightarrow> SignonAuthSession option \<Rightarrow> event list" where
  "start_cleanup ad service i s =
     [Ag_auth_data_unref ad,
      G_object_unref (Some (Obj_account_service service)),
      G_object_unref (Some (Obj_identity i)),
      G_object_unref (map_option Obj_session s)]"

definition start_with_service ::
  "collaborators \<Rightarrow> TpChannel \<Rightarrow> AgAccount \<Rightarrow> AgService list \<Rightarrow> AgService \<Rightarrow> event list" where
  "start_with_service env chv a l l_data =
     (let service = ag_account_service_new a l_data;
          ad = ag_account_service_get_auth_data env service;
          cred_id = credentials_id ad;
          i = signon_identity_new_from_db cred_id
      in [Ag_service_list_free l, G_object_unref (Some (Obj_account a))] @
         (case signon_identity_create_session env i (auth_method ad) of
            Inl error \<Rightarrow> Tp_channel_close_async chv # start_cleanup ad service i None
          | Inr s \<Rightarrow>
              (let (ctx, evs) = auth_context_new chv ad s i
               in evs @ [Signon_identity_query_info i Identity_query_info_cb ctx]
                  @ start_cleanup ad service i (Some s))))"

definition empathy_uoa_auth_handler_start ::
  "uoa_constants \<Rightarrow> collaborators \<Rightarrow> EmpathyUoaAuthHandler \<Rightarrow> TpChannel option \<Rightarrow> TpAccount option
     \<Rightarrow> event list" where
  "empathy_uoa_auth_handler_start c env self ch tp_account =
     (case ch of None \<Rightarrow> [G_return_if_fail_warning ''TP_IS_CHANNEL (channel)'']
      | Some chv \<Rightarrow>
     (case tp_account of None \<Rightarrow> [G_return_if_fail_warning ''TP_IS_ACCOUNT (tp_account)'']
      | Some acc \<Rightarrow>
     (if \<not> empathy_uoa_auth_handler_supports c self ch tp_account
      then [G_return_if_fail_warning ''empathy_uoa_auth_handler_supports (self, channel, tp_account)'']
      else
        (let id_value = storage_identifier acc;
             ident = g_value_get_uint id_value;
             account = manager self ident
         in case account of
              None \<Rightarrow> [G_object_unref None, Tp_channel_close_async chv]
            | Some a \<Rightarrow>
                (let l = ag_account_list_services_by_type a (EMPATHY_UOA_SERVICE_TYPE c)
                 in if l = []
                    then [G_object_unref (Some (Obj_account a)), Tp_channel_close_async chv]
                    else start_with_service env chv a l (hd l))))))"

subsection \<open>A whole flow\<close>

text \<open>
  What the asynchronous collaborators answer in one flow: the identity query (the info
  and the error handed to its callback), session processing (the session data and the
  error) and the mechanism authentication (its result).
\<close>

record completions =
  query_info_result :: "SignonIdentityInfo option \<times> GError option"
  session_process_result :: "GHashTable \<times> GError option"
  auth_result :: GAsyncResult

text \<open>
  The completion of one call: an asynchronous call invokes the callback registered with
  it, on the object the call was made on and with the user data registered; every other
  call, and session processing without a callback, invokes nothing.
\<close>

definition complete :: "uoa_constants \<Rightarrow> completions \<Rightarrow> event \<Rightarrow> event list" where
  "complete c r ev =
     (case ev of
        Signon_identity_query_info i cb ctx \<Rightarrow>
          (case cb of
             Identity_query_info_cb \<Rightarrow>
               identity_query_info_cb i (fst (query_info_result r)) (snd (query_info_result r)) ctx
           | _ \<Rightarrow> [])
      | Signon_auth_session_process s ps m k \<Rightarrow>
          (case k of
             Some (Session_process_cb, ctx) \<Rightarrow>
               session_process_cb s (fst (session_process_result r)) (snd (session_process_result r)) ctx
           | _ \<Rightarrow> [])
      | Empathy_sasl_auth_facebook_async ch cid tok cb ctx \<Rightarrow>
          (case cb of Auth_cb \<Rightarrow> auth_cb c ch (auth_result r) ctx | _ \<Rightarrow> [])
      | Empathy_sasl_auth_wlm_async ch tok cb ctx \<Rightarrow>
          (case cb of Auth_cb \<Rightarrow> auth_cb c ch (auth_result r) ctx | _ \<Rightarrow> [])
      | Empathy_sasl_auth_google_async ch u tok cb ctx \<Rightarrow>
          (case cb of Auth_cb \<Rightarrow> auth_cb c ch (auth_result r) ctx | _ \<Rightarrow> [])
      | _ \<Rightarrow> [])"

text \<open>The calls issued by the callbacks that the calls of a trace invoke.\<close>

definition resume :: "uoa_constants \<Rightarrow> completions \<Rightarrow> event list \<Rightarrow> event list" where
  "resume c r tr = concat (map (complete c r) tr)"

text \<open>
  The steps of a flow: \<^verbatim>\<open>start\<close>, then the callbacks invoked by the calls of
  the step before. The chain of callbacks of this file is three long (identity query,
  session processing, mechanism authentication).
\<close>

definition flow_steps ::
  "uoa_constants \<Rightarrow> collaborators \<Rightarrow> completions \<Rightarrow> EmpathyUoaAuthHandler \<Rightarrow> TpChannel option
     \<Rightarrow> TpAccount option \<Rightarrow> event list list" where
  "flow_steps c env r self ch tp_account =
     (let t0 = empathy_uoa_auth_handler_start c env self ch tp_account;
          t1 = resume c r t0;
          t2 = resume c r t1;
          t3 = resume c r t2
      in [t0, t1, t2, t3])"

definition flow ::
  "uoa_constants \<Rightarrow> collaborators \<Rightarrow> completions \<Rightarrow> EmpathyUoaAuthHandler \<Rightarrow> TpChannel option
     \<Rightarrow> TpAccount option \<Rightarrow> event list" where
  "flow c env r self ch tp_account = concat (flow_steps c env r self ch tp_account)"

subsection \<open>Observations on a trace\<close>

fun is_close :: "event \<Rightarrow> bool" where
  "is_close (Tp_channel_close_async ch) = True"
| "is_close _ = False"

fun is_identity_query :: "event \<Rightarrow> bool" where
  "is_identity_query (Signon_identity_query_info i cb ctx) = True"
| "is_identity_query _ = False"

fun is_session_process :: "event \<Rightarrow> bool" where
  "is_session_process (Signon_auth_session_process s ps m k) = True"
| "is_session_process _ = False"

fun is_mechanism_auth :: "event \<Rightarrow> bool" where
  "is_mechanism_auth (Empathy_sasl_auth_facebook_async ch cid tok cb ctx) = True"
| "is_mechanism_auth (Empathy_sasl_auth_wlm_async ch tok cb ctx) = True"
| "is_mechanism_auth (Empathy_sasl_auth_google_async ch u tok cb ctx) = True"
| "is_mechanism_auth _ = False"

fun is_context_alloc :: "event \<Rightarrow> bool" where
  "is_context_alloc G_slice_new0_AuthContext = True"
| "is_context_alloc _ = False"

fun is_context_free :: "event \<Rightarrow> bool" where
  "is_context_free (G_slice_free_AuthContext ctx) = True"
| "is_context_free _ = False"

fun is_null_release :: "event \<Rightarrow> bool" where
  "is_null_release (G_object_unref None) = True"
| "is_null_release _ = False"

definition count_events :: "(event \<Rightarrow> bool) \<Rightarrow> event list \<Rightarrow> nat" where
  "count_events P tr = length (filter P tr)"

fun is_reference :: "event \<Rightarrow> bool" where
  "is_reference (G_object_ref obj) = True"
| "is_reference (Ag_auth_data_ref ad) = True"
| "is_reference _ = False"

fun is_release :: "event \<Rightarrow> bool" where
  "is_release (G_object_unref (Some obj)) = True"
| "is_release (Ag_auth_data_unref ad) = True"
| "is_release _ = False"

text \<open>
  References and releases of one object, and references and releases of auth data (which
  are counted by kind, since \<^verbatim>\<open>auth_cb\<close> may change its parameters in between).
\<close>

definition references_of :: "gobject \<Rightarrow> event \<Rightarrow> bool" where
  "references_of obj ev = (ev = G_object_ref obj)"

definition releases_of :: "gobject \<Rightarrow> event \<Rightarrow> bool" where
  "releases_of obj ev = (ev = G_object_unref (Some obj))"

fun is_auth_data_ref :: "event \<Rightarrow> bool" where
  "is_auth_data_ref (Ag_auth_data_ref ad) = True"
| "is_auth_data_ref _ = False"

fun is_auth_data_unref :: "event \<Rightarrow> bool" where
  "is_auth_data_unref (Ag_auth_data_unref ad) = True"
| "is_auth_data_unref _ = False"

fun is_username_free :: "event \<Rightarrow> bool" where
  "is_username_free (G_free str) = True"
| "is_username_free _ = False"

subsection \<open>A scenario\<close>

text \<open>
  The scenario of the specification: the account resolves, it has a single IM service, the
  session is created, the identity query returns the username "alice" and session
  processing returns the access token "tok123". The mechanism of the channel and the
  answers of the collaborators are varied below.
\<close>

definition scenario_constants :: uoa_constants where
  "scenario_constants =
     \<lparr>EMPATHY_UOA_PROVIDER = ''uoa'', EMPATHY_UOA_SERVICE_TYPE = ''IM'',
      SIGNON_SESSION_DATA_UI_POLICY = ''UiPolicy'', SIGNON_POLICY_REQUEST_PASSWORD = 1\<rparr>"

definition scenario_channel :: "EmpathySaslMechanism \<Rightarrow> TpChannel" where
  "scenario_channel m = \<lparr>object_path = ''/chan'', negotiated_mechanism = m\<rparr>"

definition scenario_tp_account :: TpAccount where
  "scenario_tp_account = \<lparr>storage_provider = Some ''uoa'', storage_identifier = Some (GUInt 7)\<rparr>"

definition scenario_service :: AgService where
  "scenario_service = \<lparr>service_name = ''chat'', service_type = ''IM''\<rparr>"

definition scenario_account :: AgAccount where
  "scenario_account = \<lparr>account_id = 7, services = [scenario_service]\<rparr>"

text \<open>A manager that knows account 7 only.\<close>

definition scenario_handler :: EmpathyUoaAuthHandler where
  "scenario_handler = \<lparr>manager = (\<lambda>n. if n = 7 then Some scenario_account else None)\<rparr>"

definition scenario_auth_data :: AgAuthData where
  "scenario_auth_data =
     \<lparr>credentials_id = 3, auth_method = ''oauth2'', auth_mechanism = ''user_agent'',
      parameters = [''ClientId'' \<mapsto> GString ''cid'']\<rparr>"

definition scenario_identity :: SignonIdentity where
  "scenario_identity = \<lparr>identity_id = 3\<rparr>"

definition scenario_session :: SignonAuthSession where
  "scenario_session = \<lparr>session_identity = scenario_identity, session_method = ''oauth2''\<rparr>"

definition scenario_error :: GError where
  "scenario_error = \<lparr>error_code = 1, error_message = ''failed''\<rparr>"

text \<open>Collaborators that create the session, and collaborators that fail to.\<close>

definition scenario_collaborators :: collaborators where
  "scenario_collaborators =
     \<lparr>ag_account_service_get_auth_data = (\<lambda>sv. scenario_auth_data),
      signon_identity_create_session = (\<lambda>i m. Inr scenario_session)\<rparr>"

definition scenario_no_session :: collaborators where
  "scenario_no_session =
     \<lparr>ag_account_service_get_auth_data = (\<lambda>sv. scenario_auth_data),
      signon_identity_create_session = (\<lambda>i m. Inl scenario_error)\<rparr>"

text \<open>
  Completions in which every step succeeds, and the same with a failing identity query,
  with failing session processing and with a failing mechanism authentication.
\<close>

definition scenario_completions :: completions where
  "scenario_completions =
     \<lparr>query_info_result = (Some \<lparr>info_username = Some ''alice''\<rparr>, None),
      session_process_result = ([''AccessToken'' \<mapsto> GString ''tok123''], None),
      auth_result = None\<rparr>"

definition scenario_query_fails :: completions where
  "scenario_query_fails = scenario_completions\<lparr>query_info_result := (None, Some scenario_error)\<rparr>"

definition scenario_process_fails :: completions where
  "scenario_process_fails =
     scenario_completions\<lparr>session_process_result := (Map.empty, Some scenario_error)\<rparr>"

definition scenario_auth_fails :: completions where
  "scenario_auth_fails = scenario_completions\<lparr>auth_result := Some scenario_error\<rparr>"

text \<open>The context of the scenario when the identity query has answered.\<close>

definition scenario_context :: "EmpathySaslMechanism \<Rightarrow> AuthContext" where
  "scenario_context m =
     \<lparr>channel = scenario_channel m, auth_data = scenario_auth_data, session = scenario_session,
      identity = scenario_identity, username = Some ''alice''\<rparr>"

section \<open>Properties\<close>

subsection \<open>Completion of calls, and counting\<close>

lemma complete_simps [simp]:
  "complete c r (G_return_if_fail_warning w) = []"
  "complete c r (G_object_ref obj) = []"
  "complete c r (G_object_unref objo) = []"
  "complete c r (Ag_auth_data_ref ad) = []"
  "complete c r (Ag_auth_data_unref ad) = []"
  "complete c r (Ag_service_list_free l) = []"
  "complete c r G_slice_new0_AuthContext = []"
  "complete c r (G_slice_free_AuthContext ctx) = []"
  "complete c r (G_free str) = []"
  "complete c r (G_hash_table_unref t) = []"
  "complete c r (Tp_channel_close_async ch) = []"
  "complete c r G_assert_not_reached = []"
  "complete c r (Signon_auth_session_process s ps m None) = []"
  "complete c r (Signon_identity_query_info i Identity_query_info_cb ctx) =
     identity_query_info_cb i (fst (query_info_result r)) (snd (query_info_result r)) ctx"
  "complete c r (Signon_auth_session_process s ps m (Some (Session_process_cb, ctx))) =
     session_process_cb s (fst (session_process_result r)) (snd (session_process_result r)) ctx"
  "complete c r (Empathy_sasl_auth_facebook_async ch cid tok Auth_cb ctx) = auth_cb c ch (auth_result r) ctx"
  "complete c r (Empathy_sasl_auth_wlm_async ch tok Auth_cb ctx) = auth_cb c ch (auth_result r) ctx"
  "complete c r (Empathy_sasl_auth_google_async ch u tok Auth_cb ctx) = auth_cb c ch (auth_result r) ctx"
  by (simp_all add: complete_def)

lemma resume_simps [simp]:
  "resume c r [] = []"
  "resume c r (ev # tr) = complete c r ev @ resume c r tr"
  "resume c r (tr @ tr') = resume c r tr @ resume c r tr'"
  by (simp_all add: resume_def)

lemma resume_done [simp]: "resume c r (auth_context_done ctx) = []"
  by (simp add: auth_context_done_def auth_context_free_def)

lemma resume_cleanup [simp]: "resume c r (start_cleanup ad service i s) = []"
  by (simp add: start_cleanup_def)

lemma resume_auth_cb [simp]: "resume c r (auth_cb c ch res ctx) = []"
  by (simp add: auth_cb_def Let_def)

lemma count_simps [simp]:
  "count_events P [] = 0"
  "count_events P (ev # tr) = (if P ev then 1 else 0) + count_events P tr"
  "count_events P (tr @ tr') = count_events P tr + count_events P tr'"
  by (simp_all add: count_events_def)

subsection \<open>What start issues\<close>

lemma start_queries:
  assumes "empathy_uoa_auth_handler_supports c self (Some ch) (Some acc)"
    and "manager self (g_value_get_uint (storage_identifier acc)) = Some a"
    and "ag_account_list_services_by_type a (EMPATHY_UOA_SERVICE_TYPE c) = sv # svs"
    and "ag_account_service_get_auth_data env (ag_account_service_new a sv) = ad"
    and "signon_identity_create_session env (signon_identity_new_from_db (credentials_id ad))
           (auth_method ad) = Inr s"
  shows "empathy_uoa_auth_handler_start c env self (Some ch) (Some acc) =
     [Ag_service_list_free (sv # svs), G_object_unref (Some (Obj_account a))] @
     snd (auth_context_new ch ad s (signon_identity_new_from_db (credentials_id ad))) @
     [Signon_identity_query_info (signon_identity_new_from_db (credentials_id ad))
        Identity_query_info_cb
        (fst (auth_context_new ch ad s (signon_identity_new_from_db (credentials_id ad))))] @
     start_cleanup ad (ag_account_service_new a sv) (signon_identity_new_from_db (credentials_id ad)) (Some s)"
  using assms
  by (simp add: empathy_uoa_auth_handler_start_def start_with_service_def Let_def split_beta)

lemma start_no_session:
  assumes "empathy_uoa_auth_handler_supports c self (Some ch) (Some acc)"
    and "manager self (g_value_get_uint (storage_identifier acc)) = Some a"
    and "ag_account_list_services_by_type a (EMPATHY_UOA_SERVICE_TYPE c) = sv # svs"
    and "ag_account_service_get_auth_data env (ag_account_service_new a sv) = ad"
    and "signon_identity_create_session env (signon_identity_new_from_db (credentials_id ad))
           (auth_method ad) = Inl e"
  shows "empathy_uoa_auth_handler_start c env self (Some ch) (Some acc) =
     [Ag_service_list_free (sv # svs), G_object_unref (Some (Obj_account a)),
      Tp_channel_close_async ch] @
     start_cleanup ad (ag_account_service_new a sv) (signon_identity_new_from_db (credentials_id ad)) None"
  using assms
  by (simp add: empathy_uoa_auth_handler_start_def start_with_service_def Let_def)

lemma resume_start_queries:
  assumes "empathy_uoa_auth_handler_supports c self (Some ch) (Some acc)"
    and "manager self (g_value_get_uint (storage_identifier acc)) = Some a"
    and "ag_account_list_services_by_type a (EMPATHY_UOA_SERVICE_TYPE c) = sv # svs"
    and "ag_account_service_get_auth_data env (ag_account_service_new a sv) = ad"
    and "signon_identity_create_session env (signon_identity_new_from_db (credentials_id ad))
           (auth_method ad) = Inr s"
  shows "resume c r (empathy_uoa_auth_handler_start c env self (Some ch) (Some acc)) =
     identity_query_info_cb (signon_identity_new_from_db (credentials_id ad))
       (fst (query_info_result r)) (snd (query_info_result r))
       \<lparr>channel = ch, auth_data = ad, session = s,
        identity = signon_identity_new_from_db (credentials_id ad), username = None\<rparr>"
  by (simp add: start_queries [OF assms] auth_context_new_def)

lemma resume_start_gate:
  "\<not> empathy_uoa_auth_handler_supports c self ch acct \<Longrightarrow>
   resume c r (empathy_uoa_auth_handler_start c env self ch acct) = []"
  by (cases ch; cases acct) (simp_all add: empathy_uoa_auth_handler_start_def)

subsection \<open>The steps of a started flow\<close>

text \<open>
  When \<^verbatim>\<open>start\<close> has issued the identity query, the three steps that follow are
  the three callbacks, each invoked only if the step before succeeded.
\<close>

lemma flow_steps_started:
  assumes "empathy_uoa_auth_handler_supports c self (Some ch) (Some acc)"
    and "manager self (g_value_get_uint (storage_identifier acc)) = Some a"
    and "ag_account_list_services_by_type a (EMPATHY_UOA_SERVICE_TYPE c) = sv # svs"
    and "ag_account_service_get_auth_data env (ag_account_service_new a sv) = ad"
    and "signon_identity_create_session env (signon_identity_new_from_db (credentials_id ad))
           (auth_method ad) = Inr s"
    and "ctx0 = \<lparr>channel = ch, auth_data = ad, session = s,
                  identity = signon_identity_new_from_db (credentials_id ad), username = None\<rparr>"
    and "ctx1 = ctx0\<lparr>username := signon_identity_info_get_username (fst (query_info_result r))\<rparr>"
  shows "flow_steps c env r self (Some ch) (Some acc) =
     [empathy_uoa_auth_handler_start c env self (Some ch) (Some acc),
      identity_query_info_cb (identity ctx0) (fst (query_info_result r)) (snd (query_info_result r)) ctx0,
      (if snd (query_info_result r) = None
       then session_process_cb s (fst (session_process_result r)) (snd (session_process_result r)) ctx1
       else []),
      (if snd (query_info_result r) = None \<and> snd (session_process_result r) = None
       then auth_cb c ch (auth_result r) ctx1 else [])]"
proof -
  have m: "empathy_sasl_channel_select_mechanism ch = EMPATHY_SASL_MECHANISM_FACEBOOK \<or>
           empathy_sasl_channel_select_mechanism ch = EMPATHY_SASL_MECHANISM_WLM \<or>
           empathy_sasl_channel_select_mechanism ch = EMPATHY_SASL_MECHANISM_GOOGLE"
    using assms(1) by (simp add: empathy_uoa_auth_handler_supports_def Let_def split: if_splits)
  have t1: "resume c r (empathy_uoa_auth_handler_start c env self (Some ch) (Some acc)) =
      identity_query_info_cb (identity ctx0) (fst (query_info_result r)) (snd (query_info_result r)) ctx0"
    by (simp add: resume_start_queries [OF assms(1-5)] assms(6))
  have t2: "resume c r (identity_query_info_cb (identity ctx0) (fst (query_info_result r))
               (snd (query_info_result r)) ctx0) =
      (if snd (query_info_result r) = None
       then session_process_cb s (fst (session_process_result r)) (snd (session_process_result r)) ctx1
       else [])"
    by (simp add: identity_query_info_cb_def g_strdup_def Let_def assms(6,7))
  have t3: "resume c r (session_process_cb s d err ctx1) =
      (if err = None then auth_cb c ch (auth_result r) ctx1 else [])" for d err
    using m by (auto simp add: session_process_cb_def Let_def assms(6,7))
  show ?thesis
    by (simp add: flow_steps_def Let_def t1 t2 t3)
qed

text \<open>A context is allocated only by a \<^verbatim>\<open>start\<close> that issues the identity query.\<close>

lemma alloc_started:
  assumes "G_slice_new0_AuthContext \<in> set (flow c env r self ch acct)"
  shows "\<exists>chv acc a sv svs s.
           ch = Some chv \<and> acct = Some acc \<and>
           empathy_uoa_auth_handler_supports c self (Some chv) (Some acc) \<and>
           manager self (g_value_get_uint (storage_identifier acc)) = Some a \<and>
           ag_account_list_services_by_type a (EMPATHY_UOA_SERVICE_TYPE c) = sv # svs \<and>
           signon_identity_create_session env
             (signon_identity_new_from_db
                (credentials_id (ag_account_service_get_auth_data env (ag_account_service_new a sv))))
             (auth_method (ag_account_service_get_auth_data env (ag_account_service_new a sv))) = Inr s"
proof (rule ccontr)
  assume n: "\<not> ?thesis"
  have "flow c env r self ch acct = empathy_uoa_auth_handler_start c env self ch acct \<and>
        G_slice_new0_AuthContext \<notin> set (empathy_uoa_auth_handler_start c env self ch acct)"
    using n
    apply (cases ch; cases acct)
    apply (simp_all add: flow_def flow_steps_def Let_def empathy_uoa_auth_handler_start_def)
    apply (auto simp add: start_with_service_def Let_def start_cleanup_def neq_Nil_conv
         split: option.splits sum.splits)
    done
  with assms show False by simp
qed

text \<open>
  After the third callback nothing is pending: the four steps of \<open>flow_steps\<close> are the
  whole flow, whatever the collaborators answer.
\<close>

lemma flow_quiescent:
  "resume c r (flow_steps c env r self ch acct ! 3) = []"
proof (cases "\<exists>chv acc a sv svs s.
           ch = Some chv \<and> acct = Some acc \<and>
           empathy_uoa_auth_handler_supports c self (Some chv) (Some acc) \<and>
           manager self (g_value_get_uint (storage_identifier acc)) = Some a \<and>
           ag_account_list_services_by_type a (EMPATHY_UOA_SERVICE_TYPE c) = sv # svs \<and>
           signon_identity_create_session env
             (signon_identity_new_from_db
                (credentials_id (ag_account_service_get_auth_data env (ag_account_service_new a sv))))
             (auth_method (ag_account_service_get_auth_data env (ag_account_service_new a sv))) = Inr s")
  case True
  then obtain chv acc a sv svs s where
    ch: "ch = Some chv" and acct: "acct = Some acc" and
    h1: "empathy_uoa_auth_handler_supports c self (Some chv) (Some acc)" and
    h2: "manager self (g_value_get_uint (storage_identifier acc)) = Some a" and
    h3: "ag_account_list_services_by_type a (EMPATHY_UOA_SERVICE_TYPE c) = sv # svs" and
    h5: "signon_identity_create_session env
           (signon_identity_new_from_db
              (credentials_id (ag_account_service_get_auth_data env (ag_account_service_new a sv))))
           (auth_method (ag_account_service_get_auth_data env (ag_account_service_new a sv))) = Inr s"
    by blast
  show ?thesis
    by (simp add: ch acct flow_steps_started [OF h1 h2 h3 refl h5 refl refl])
next
  case False
  then have "resume c r (empathy_uoa_auth_handler_start c env self ch acct) = []"
    apply (cases ch; cases acct)
    apply (simp_all add: empathy_uoa_auth_handler_start_def)
    apply (auto simp add: start_with_service_def Let_def start_cleanup_def neq_Nil_conv
         split: option.splits sum.splits)
    done
  then show ?thesis
    by (simp add: flow_steps_def Let_def)
qed

lemma no_query_in_callbacks:
  "count_events is_identity_query (identity_query_info_cb i info e ctx) = 0"
  "count_events is_identity_query (session_process_cb s d e ctx) = 0"
  "count_events is_identity_query (auth_cb c ch res ctx) = 0"
  by (simp_all add: identity_query_info_cb_def session_process_cb_def auth_cb_def Let_def
        auth_context_done_def auth_context_free_def split: EmpathySaslMechanism.splits)

subsection \<open>The scenario satisfies the conditions of a started flow\<close>

lemma scenario_supports:
  "empathy_uoa_auth_handler_supports scenario_constants scenario_handler
     (Some (scenario_channel EMPATHY_SASL_MECHANISM_GOOGLE)) (Some scenario_tp_account)"
  by (simp add: empathy_uoa_auth_handler_supports_def tp_strdiff_def scenario_constants_def
        scenario_channel_def scenario_tp_account_def empathy_sasl_channel_select_mechanism_def)

lemma scenario_resolves:
  "manager scenario_handler (g_value_get_uint (storage_identifier scenario_tp_account)) =
     Some scenario_account"
  by (simp add: scenario_handler_def scenario_tp_account_def g_value_get_uint_def)

lemma scenario_one_service:
  "ag_account_list_services_by_type scenario_account (EMPATHY_UOA_SERVICE_TYPE scenario_constants) =
     [scenario_service]"
  by (simp add: ag_account_list_services_by_type_def scenario_account_def scenario_service_def
        scenario_constants_def)

lemma scenario_auth_data_of:
  "ag_account_service_get_auth_data scenario_collaborators
     (ag_account_service_new scenario_account scenario_service) = scenario_auth_data"
  "ag_account_service_get_auth_data scenario_no_session
     (ag_account_service_new scenario_account scenario_service) = scenario_auth_data"
  by (simp_all add: scenario_collaborators_def scenario_no_session_def)

lemma scenario_identity_of:
  "signon_identity_new_from_db (credentials_id scenario_auth_data) = scenario_identity"
  by (simp add: signon_identity_new_from_db_def scenario_auth_data_def scenario_identity_def)

lemma scenario_session_created:
  "signon_identity_create_session scenario_collaborators
     (signon_identity_new_from_db (credentials_id scenario_auth_data))
     (auth_method scenario_auth_data) = Inr scenario_session"
  by (simp add: scenario_collaborators_def)

lemma scenario_session_fails:
  "signon_identity_create_session scenario_no_session
     (signon_identity_new_from_db (credentials_id scenario_auth_data))
     (auth_method scenario_auth_data) = Inl scenario_error"
  by (simp add: scenario_no_session_def)

subsection \<open>The capability gate\<close>

text \<open>
  C1. For every channel and account, \<^verbatim>\<open>supports\<close> is true exactly when the
  storage provider of the account is the expected UOA provider and the mechanism
  negotiated on the channel is one of FACEBOOK, WLM and GOOGLE. So it is false for every
  account with another provider (or none), and false for every channel whose mechanism
  is outside the three, whatever the provider. It is also false when the channel or the
  account is \<^verbatim>\<open>NULL\<close>.
\<close>

theorem supports_iff:
  "empathy_uoa_auth_handler_supports c self (Some ch) (Some acc) =
     (storage_provider acc = Some (EMPATHY_UOA_PROVIDER c) \<and>
      (empathy_sasl_channel_select_mechanism ch = EMPATHY_SASL_MECHANISM_FACEBOOK \<or>
       empathy_sasl_channel_select_mechanism ch = EMPATHY_SASL_MECHANISM_WLM \<or>
       empathy_sasl_channel_select_mechanism ch = EMPATHY_SASL_MECHANISM_GOOGLE)) \<and>
   \<not> empathy_uoa_auth_handler_supports c self None acct \<and>
   \<not> empathy_uoa_auth_handler_supports c self cho None"
  by (cases cho) (simp_all add: empathy_uoa_auth_handler_supports_def tp_strdiff_def Let_def)

subsection \<open>The mechanism dispatch\<close>

text \<open>
  C2. In a flow that \<^verbatim>\<open>start\<close> carries as far as the identity query, when the
  identity query and session processing complete without error, the step that follows
  session processing is one call, chosen by the mechanism of the channel: FACEBOOK gets
  the client id (read from the parameters of the auth data) and the access token (read
  from the session data), WLM gets the access token only, and GOOGLE gets the username
  that the identity query returned and the access token.
\<close>

theorem dispatch_by_mechanism:
  assumes "empathy_uoa_auth_handler_supports c self (Some ch) (Some acc)"
    and "manager self (g_value_get_uint (storage_identifier acc)) = Some a"
    and "ag_account_list_services_by_type a (EMPATHY_UOA_SERVICE_TYPE c) = sv # svs"
    and "ag_account_service_get_auth_data env (ag_account_service_new a sv) = ad"
    and "signon_identity_create_session env (signon_identity_new_from_db (credentials_id ad))
           (auth_method ad) = Inr s"
    and "query_info_result r = (Some info, None)"
    and "session_process_result r = (session_data, None)"
  shows "flow_steps c env r self (Some ch) (Some acc) ! 2 =
     (let ctx = \<lparr>channel = ch, auth_data = ad, session = s,
                 identity = signon_identity_new_from_db (credentials_id ad),
                 username = info_username info\<rparr>;
          access_token = tp_asv_get_string session_data ''AccessToken'';
          client_id = tp_asv_get_string (parameters ad) ''ClientId''
      in if empathy_sasl_channel_select_mechanism ch = EMPATHY_SASL_MECHANISM_FACEBOOK
         then [Empathy_sasl_auth_facebook_async ch client_id access_token Auth_cb ctx]
         else if empathy_sasl_channel_select_mechanism ch = EMPATHY_SASL_MECHANISM_WLM
         then [Empathy_sasl_auth_wlm_async ch access_token Auth_cb ctx]
         else [Empathy_sasl_auth_google_async ch (info_username info) access_token Auth_cb ctx])"
proof -
  have m: "empathy_sasl_channel_select_mechanism ch = EMPATHY_SASL_MECHANISM_FACEBOOK \<or>
           empathy_sasl_channel_select_mechanism ch = EMPATHY_SASL_MECHANISM_WLM \<or>
           empathy_sasl_channel_select_mechanism ch = EMPATHY_SASL_MECHANISM_GOOGLE"
    using assms(1) by (simp add: empathy_uoa_auth_handler_supports_def tp_strdiff_def Let_def split: if_splits)
  have "flow_steps c env r self (Some ch) (Some acc) ! 2 =
        resume c r (resume c r (empathy_uoa_auth_handler_start c env self (Some ch) (Some acc)))"
    by (simp add: flow_steps_def Let_def)
  also have "\<dots> = session_process_cb s session_data None
        \<lparr>channel = ch, auth_data = ad, session = s,
         identity = signon_identity_new_from_db (credentials_id ad), username = info_username info\<rparr>"
    using assms(6,7)
    by (simp add: resume_start_queries [OF assms(1-5)] identity_query_info_cb_def
          signon_identity_info_get_username_def g_strdup_def Let_def)
  finally show ?thesis
    using m
    by (auto simp add: session_process_cb_def Let_def)
qed

text \<open>
  The scenario of the specification: the identity query returns "alice", the mechanism is
  GOOGLE, session processing returns the access token "tok123"; the call issued is
  \<^verbatim>\<open>authGoogle ("alice", "tok123")\<close>.
\<close>

theorem dispatch_google_alice:
  "flow_steps scenario_constants scenario_collaborators scenario_completions scenario_handler
     (Some (scenario_channel EMPATHY_SASL_MECHANISM_GOOGLE)) (Some scenario_tp_account) ! 2 =
   [Empathy_sasl_auth_google_async (scenario_channel EMPATHY_SASL_MECHANISM_GOOGLE)
      (Some ''alice'') (Some ''tok123'') Auth_cb (scenario_context EMPATHY_SASL_MECHANISM_GOOGLE)]"
proof -
  have q: "query_info_result scenario_completions = (Some \<lparr>info_username = Some ''alice''\<rparr>, None)"
    by (simp add: scenario_completions_def)
  have p: "session_process_result scenario_completions =
             ([''AccessToken'' \<mapsto> GString ''tok123''], None)"
    by (simp add: scenario_completions_def)
  show ?thesis
    using dispatch_by_mechanism [OF scenario_supports scenario_resolves scenario_one_service
        scenario_auth_data_of(1) scenario_session_created q p]
    by (simp add: scenario_identity_of scenario_context_def tp_asv_get_string_def
          empathy_sasl_channel_select_mechanism_def scenario_channel_def)
qed

subsection \<open>Failure of the mechanism authentication\<close>

text \<open>
  C3. When the mechanism authentication reports failure, its callback issues exactly one
  session-processing call; the parameters of that call are the parameters of the auth
  data with the UI policy \<^verbatim>\<open>REQUEST_PASSWORD\<close> inserted; no callback is attached to
  it, so that its completion invokes nothing; and the callback then closes the channel
  and releases the context, once each, whatever the collaborators would answer.
\<close>

theorem auth_failure_retries_once:
  "auth_cb c source (Some e) ctx =
     (let ps = (parameters (auth_data ctx))
                 (SIGNON_SESSION_DATA_UI_POLICY c \<mapsto> GInt (SIGNON_POLICY_REQUEST_PASSWORD c))
      in [Signon_auth_session_process (session ctx) ps (auth_mechanism (auth_data ctx)) None,
          G_hash_table_unref
            [SIGNON_SESSION_DATA_UI_POLICY c \<mapsto> GInt (SIGNON_POLICY_REQUEST_PASSWORD c)]] @
         auth_context_done (ctx\<lparr>auth_data := (auth_data ctx)\<lparr>parameters := ps\<rparr>\<rparr>)) \<and>
   count_events is_session_process (auth_cb c source (Some e) ctx) = 1 \<and>
   count_events is_close (auth_cb c source (Some e) ctx) = 1 \<and>
   count_events is_context_free (auth_cb c source (Some e) ctx) = 1 \<and>
   resume c r (auth_cb c source (Some e) ctx) = []"
  by (simp add: auth_cb_def empathy_sasl_auth_finish_def tp_asv_new_int_def
        ag_auth_data_insert_parameters_def auth_context_done_def auth_context_free_def Let_def)

subsection \<open>One context, done once\<close>

text \<open>
  C4. Take a flow in which every asynchronous call completes, and in which a context is
  allocated. The flow ends with \<open>auth_context_done\<close> on that context, that is with the
  close of the channel, the release of the four handles of the context, of its username
  and of the context itself, in this order; and what comes before holds one allocation of
  a context, no release of one and no close of the channel. So over the whole flow,
  on the success path and on every failure path, there is exactly one allocation and
  one release of a context, one release of a username and one close of the channel.

  The handles balance over the whole flow. The context takes four references (channel,
  auth data, session, identity), each once. \<^verbatim>\<open>start\<close> obtains five handles for
  itself (account, service, auth data, identity, session) and releases each once. So
  the channel is referenced once and released once; the session and the identity are
  each referenced once and released twice (the reference of \<^verbatim>\<open>start\<close> and that of
  the context); the auth data likewise; there are nine releases in all, none of them of
  \<^verbatim>\<open>NULL\<close>. The assertion of the dispatch is not reached.
\<close>

theorem context_done_exactly_once:
  assumes "G_slice_new0_AuthContext \<in> set (flow c env r self ch acct)"
  shows "\<exists>pre ctx.
       flow c env r self ch acct = pre @ auth_context_done ctx \<and>
       flow c env r self ch acct = pre @
         [Tp_channel_close_async (channel ctx),
          G_object_unref (Some (Obj_channel (channel ctx))),
          Ag_auth_data_unref (auth_data ctx),
          G_object_unref (Some (Obj_session (session ctx))),
          G_object_unref (Some (Obj_identity (identity ctx))),
          G_free (username ctx),
          G_slice_free_AuthContext ctx] \<and>
       count_events is_context_alloc pre = 1 \<and>
       count_events is_context_free pre = 0 \<and>
       count_events is_close pre = 0 \<and>
       count_events is_reference pre = 4 \<and>
       count_events is_release pre = 5 \<and>
       G_object_ref (Obj_channel (channel ctx)) \<in> set pre \<and>
       G_object_ref (Obj_session (session ctx)) \<in> set pre \<and>
       G_object_ref (Obj_identity (identity ctx)) \<in> set pre \<and>
       (\<exists>ps. Ag_auth_data_ref ((auth_data ctx)\<lparr>parameters := ps\<rparr>) \<in> set pre) \<and>
       G_assert_not_reached \<notin> set pre \<and>
       count_events is_context_alloc (flow c env r self ch acct) = 1 \<and>
       count_events is_context_free (flow c env r self ch acct) = 1 \<and>
       count_events is_username_free (flow c env r self ch acct) = 1 \<and>
       count_events is_close (flow c env r self ch acct) = 1 \<and>
       count_events is_reference (flow c env r self ch acct) = 4 \<and>
       count_events is_release (flow c env r self ch acct) = 9 \<and>
       count_events is_null_release (flow c env r self ch acct) = 0 \<and>
       count_events (references_of (Obj_channel (channel ctx))) (flow c env r self ch acct) = 1 \<and>
       count_events (releases_of (Obj_channel (channel ctx))) (flow c env r self ch acct) = 1 \<and>
       count_events (references_of (Obj_session (session ctx))) (flow c env r self ch acct) = 1 \<and>
       count_events (releases_of (Obj_session (session ctx))) (flow c env r self ch acct) = 2 \<and>
       count_events (references_of (Obj_identity (identity ctx))) (flow c env r self ch acct) = 1 \<and>
       count_events (releases_of (Obj_identity (identity ctx))) (flow c env r self ch acct) = 2 \<and>
       count_events is_auth_data_ref (flow c env r self ch acct) = 1 \<and>
       count_events is_auth_data_unref (flow c env r self ch acct) = 2 \<and>
       G_assert_not_reached \<notin> set (flow c env r self ch acct)"
proof -
  from alloc_started [OF assms] obtain chv acc a sv svs s where
    ch: "ch = Some chv" and acct: "acct = Some acc" and
    h1: "empathy_uoa_auth_handler_supports c self (Some chv) (Some acc)" and
    h2: "manager self (g_value_get_uint (storage_identifier acc)) = Some a" and
    h3: "ag_account_list_services_by_type a (EMPATHY_UOA_SERVICE_TYPE c) = sv # svs" and
    h5: "signon_identity_create_session env
           (signon_identity_new_from_db
              (credentials_id (ag_account_service_get_auth_data env (ag_account_service_new a sv))))
           (auth_method (ag_account_service_get_auth_data env (ag_account_service_new a sv))) = Inr s"
    by blast
  define ad where "ad = ag_account_service_get_auth_data env (ag_account_service_new a sv)"
  define ctx0 where "ctx0 = \<lparr>channel = chv, auth_data = ad, session = s,
      identity = signon_identity_new_from_db (credentials_id ad), username = None\<rparr>"
  define ctx1 where
    "ctx1 = ctx0\<lparr>username := signon_identity_info_get_username (fst (query_info_result r))\<rparr>"
  define t0 where "t0 = empathy_uoa_auth_handler_start c env self (Some chv) (Some acc)"
  have h4: "ag_account_service_get_auth_data env (ag_account_service_new a sv) = ad"
    by (simp add: ad_def)
  have h5': "signon_identity_create_session env (signon_identity_new_from_db (credentials_id ad))
           (auth_method ad) = Inr s"
    using h5 by (simp add: ad_def)
  have m: "empathy_sasl_channel_select_mechanism chv = EMPATHY_SASL_MECHANISM_FACEBOOK \<or>
           empathy_sasl_channel_select_mechanism chv = EMPATHY_SASL_MECHANISM_WLM \<or>
           empathy_sasl_channel_select_mechanism chv = EMPATHY_SASL_MECHANISM_GOOGLE"
    using h1 by (simp add: empathy_uoa_auth_handler_supports_def Let_def split: if_splits)
  have t0: "t0 =
     [Ag_service_list_free (sv # svs), G_object_unref (Some (Obj_account a)),
      G_slice_new0_AuthContext, G_object_ref (Obj_channel chv), Ag_auth_data_ref ad,
      G_object_ref (Obj_session s),
      G_object_ref (Obj_identity (signon_identity_new_from_db (credentials_id ad))),
      Signon_identity_query_info (signon_identity_new_from_db (credentials_id ad))
        Identity_query_info_cb ctx0,
      Ag_auth_data_unref ad,
      G_object_unref (Some (Obj_account_service (ag_account_service_new a sv))),
      G_object_unref (Some (Obj_identity (signon_identity_new_from_db (credentials_id ad)))),
      G_object_unref (Some (Obj_session s))]"
    by (simp add: t0_def start_queries [OF h1 h2 h3 h4 h5'] auth_context_new_def
          start_cleanup_def ctx0_def)
  have pre0: "count_events is_context_alloc t0 = 1 \<and> count_events is_context_free t0 = 0 \<and>
      count_events is_close t0 = 0 \<and> count_events is_reference t0 = 4 \<and>
      count_events is_release t0 = 5 \<and> G_assert_not_reached \<notin> set t0"
    by (simp add: t0)
  have refs: "G_object_ref (Obj_channel chv) \<in> set t0 \<and> G_object_ref (Obj_session s) \<in> set t0 \<and>
      G_object_ref (Obj_identity (signon_identity_new_from_db (credentials_id ad))) \<in> set t0 \<and>
      Ag_auth_data_ref ad \<in> set t0"
    by (simp add: t0)
  have fl: "flow c env r self ch acct = t0 @
      identity_query_info_cb (identity ctx0) (fst (query_info_result r)) (snd (query_info_result r)) ctx0 @
      (if snd (query_info_result r) = None
       then session_process_cb s (fst (session_process_result r)) (snd (session_process_result r)) ctx1
       else []) @
      (if snd (query_info_result r) = None \<and> snd (session_process_result r) = None
       then auth_cb c chv (auth_result r) ctx1 else [])"
    by (simp add: flow_def ch acct t0_def
          flow_steps_started [OF h1 h2 h3 h4 h5' ctx0_def ctx1_def])
  have whole0: "count_events is_username_free t0 = 0 \<and> count_events is_null_release t0 = 0 \<and>
      count_events (references_of (Obj_channel chv)) t0 = 1 \<and>
      count_events (releases_of (Obj_channel chv)) t0 = 0 \<and>
      count_events (references_of (Obj_session s)) t0 = 1 \<and>
      count_events (releases_of (Obj_session s)) t0 = 1 \<and>
      count_events (references_of (Obj_identity (signon_identity_new_from_db (credentials_id ad)))) t0 = 1 \<and>
      count_events (releases_of (Obj_identity (signon_identity_new_from_db (credentials_id ad)))) t0 = 1 \<and>
      count_events is_auth_data_ref t0 = 1 \<and> count_events is_auth_data_unref t0 = 1"
    by (simp add: t0 references_of_def releases_of_def)
  have done_counts:
    "count_events is_context_alloc (auth_context_done x) = 0 \<and>
     count_events is_context_free (auth_context_done x) = 1 \<and>
     count_events is_username_free (auth_context_done x) = 1 \<and>
     count_events is_close (auth_context_done x) = 1 \<and>
     count_events is_reference (auth_context_done x) = 0 \<and>
     count_events is_release (auth_context_done x) = 4 \<and>
     count_events is_null_release (auth_context_done x) = 0 \<and>
     count_events (references_of obj) (auth_context_done x) = 0 \<and>
     count_events (releases_of (Obj_channel (channel x))) (auth_context_done x) = 1 \<and>
     count_events (releases_of (Obj_session (session x))) (auth_context_done x) = 1 \<and>
     count_events (releases_of (Obj_identity (identity x))) (auth_context_done x) = 1 \<and>
     count_events is_auth_data_ref (auth_context_done x) = 0 \<and>
     count_events is_auth_data_unref (auth_context_done x) = 1 \<and>
     G_assert_not_reached \<notin> set (auth_context_done x)" for x obj
    by (simp add: auth_context_done_def auth_context_free_def references_of_def releases_of_def)
  have gen: ?thesis
    if fm: "flow c env r self ch acct = t0 @ mid @ auth_context_done ctx"
      and qm: "count_events is_context_alloc mid = 0 \<and> count_events is_context_free mid = 0 \<and>
           count_events is_close mid = 0 \<and> count_events is_reference mid = 0 \<and>
           count_events is_release mid = 0 \<and> G_assert_not_reached \<notin> set mid \<and>
           count_events is_username_free mid = 0 \<and> count_events is_null_release mid = 0 \<and>
           count_events is_auth_data_ref mid = 0 \<and> count_events is_auth_data_unref mid = 0 \<and>
           (\<forall>obj. count_events (references_of obj) mid = 0 \<and>
                  count_events (releases_of obj) mid = 0)"
      and cm: "channel ctx = chv \<and> session ctx = s \<and>
           identity ctx = signon_identity_new_from_db (credentials_id ad) \<and>
           (auth_data ctx)\<lparr>parameters := parameters ad\<rparr> = ad"
    for mid ctx
  proof (intro exI [of _ "t0 @ mid"] exI [of _ ctx] conjI exI [of _ "parameters ad"])
    show "flow c env r self ch acct = (t0 @ mid) @ auth_context_done ctx"
      by (simp add: fm)
    show "flow c env r self ch acct = (t0 @ mid) @
      [Tp_channel_close_async (channel ctx),
       G_object_unref (Some (Obj_channel (channel ctx))),
       Ag_auth_data_unref (auth_data ctx),
       G_object_unref (Some (Obj_session (session ctx))),
       G_object_unref (Some (Obj_identity (identity ctx))),
       G_free (username ctx),
       G_slice_free_AuthContext ctx]"
      by (simp add: fm auth_context_done_def auth_context_free_def)
  qed (insert qm cm pre0 refs whole0 done_counts [of ctx], simp_all add: fm)
  define p1 where "p1 = Signon_auth_session_process s (parameters ad) (auth_mechanism ad)
      (Some (Session_process_cb, ctx1))"
  define p2 where "p2 =
     (let access_token = tp_asv_get_string (fst (session_process_result r)) ''AccessToken'';
          client_id = tp_asv_get_string (parameters ad) ''ClientId''
      in if empathy_sasl_channel_select_mechanism chv = EMPATHY_SASL_MECHANISM_FACEBOOK
         then Empathy_sasl_auth_facebook_async chv client_id access_token Auth_cb ctx1
         else if empathy_sasl_channel_select_mechanism chv = EMPATHY_SASL_MECHANISM_WLM
         then Empathy_sasl_auth_wlm_async chv access_token Auth_cb ctx1
         else Empathy_sasl_auth_google_async chv (username ctx1) access_token Auth_cb ctx1)"
  define ps where "ps = (parameters ad)
     (SIGNON_SESSION_DATA_UI_POLICY c \<mapsto> GInt (SIGNON_POLICY_REQUEST_PASSWORD c))"
  define retry where "retry =
     [Signon_auth_session_process s ps (auth_mechanism ad) None,
      G_hash_table_unref
        [SIGNON_SESSION_DATA_UI_POLICY c \<mapsto> GInt (SIGNON_POLICY_REQUEST_PASSWORD c)]]"
  have t1: "identity_query_info_cb (identity ctx0) (fst (query_info_result r)) None ctx0 = [p1]"
    by (simp add: identity_query_info_cb_def g_strdup_def Let_def ctx1_def ctx0_def p1_def)
  have t2: "session_process_cb s (fst (session_process_result r)) None ctx1 = [p2]"
    using m by (auto simp add: session_process_cb_def Let_def ctx1_def ctx0_def p2_def)
  have quiet: "count_events is_context_alloc mid = 0 \<and> count_events is_context_free mid = 0 \<and>
           count_events is_close mid = 0 \<and> count_events is_reference mid = 0 \<and>
           count_events is_release mid = 0 \<and> G_assert_not_reached \<notin> set mid \<and>
           count_events is_username_free mid = 0 \<and> count_events is_null_release mid = 0 \<and>
           count_events is_auth_data_ref mid = 0 \<and> count_events is_auth_data_unref mid = 0 \<and>
           (\<forall>obj. count_events (references_of obj) mid = 0 \<and>
                  count_events (releases_of obj) mid = 0)"
    if "mid = [] \<or> mid = [p1] \<or> mid = [p1, p2] \<or> mid = [p1, p2] @ retry" for mid
    using that
    by (elim disjE) (simp_all add: p1_def p2_def retry_def Let_def references_of_def releases_of_def)
  show ?thesis
  proof (cases "snd (query_info_result r)")
    case (Some e)
    have "flow c env r self ch acct = t0 @ [] @ auth_context_done ctx0"
      by (simp add: fl Some identity_query_info_cb_def)
    then show ?thesis
      by (rule gen) (simp_all add: quiet ctx0_def)
  next
    case qok: None
    show ?thesis
    proof (cases "snd (session_process_result r)")
      case (Some e)
      have "flow c env r self ch acct = t0 @ [p1] @ auth_context_done ctx1"
        by (simp add: fl qok Some t1 session_process_cb_def)
      then show ?thesis
        by (rule gen) (insert quiet [of "[p1]"], simp_all add: ctx1_def ctx0_def)
    next
      case pok: None
      show ?thesis
      proof (cases "auth_result r")
        case None
        have "flow c env r self ch acct = t0 @ [p1, p2] @ auth_context_done ctx1"
          by (simp add: fl qok pok t1 t2 None auth_cb_def empathy_sasl_auth_finish_def)
        then show ?thesis
          by (rule gen) (insert quiet [of "[p1, p2]"], simp_all add: ctx1_def ctx0_def)
      next
        case (Some e)
        have "auth_cb c chv (Some e) ctx1 =
            retry @ auth_context_done (ctx1\<lparr>auth_data := ad\<lparr>parameters := ps\<rparr>\<rparr>)"
          by (simp add: auth_cb_def empathy_sasl_auth_finish_def tp_asv_new_int_def
                ag_auth_data_insert_parameters_def Let_def retry_def ps_def ctx1_def ctx0_def)
        then have "flow c env r self ch acct =
            t0 @ ([p1, p2] @ retry) @ auth_context_done (ctx1\<lparr>auth_data := ad\<lparr>parameters := ps\<rparr>\<rparr>)"
          by (simp add: fl qok pok t1 t2 Some)
        then show ?thesis
          by (rule gen) (insert quiet [of "[p1, p2] @ retry"], simp_all add: ctx1_def ctx0_def)
      qed
    qed
  qed
qed

theorem context_done_exactly_once_scenario:
  "G_slice_new0_AuthContext \<in> set (flow scenario_constants scenario_collaborators scenario_auth_fails scenario_handler
        (Some (scenario_channel EMPATHY_SASL_MECHANISM_GOOGLE)) (Some scenario_tp_account)) \<and>
   (\<exists>pre ctx.
      flow scenario_constants scenario_collaborators scenario_auth_fails scenario_handler
            (Some (scenario_channel EMPATHY_SASL_MECHANISM_GOOGLE)) (Some scenario_tp_account) = pre @ auth_context_done ctx \<and>
      flow scenario_constants scenario_collaborators scenario_auth_fails scenario_handler
            (Some (scenario_channel EMPATHY_SASL_MECHANISM_GOOGLE)) (Some scenario_tp_account) = pre @
        [Tp_channel_close_async (channel ctx),
         G_object_unref (Some (Obj_channel (channel ctx))),
         Ag_auth_data_unref (auth_data ctx),
         G_object_unref (Some (Obj_session (session ctx))),
         G_object_unref (Some (Obj_identity (identity ctx))),
         G_free (username ctx),
         G_slice_free_AuthContext ctx] \<and>
      count_events is_context_alloc pre = 1 \<and>
      count_events is_context_free pre = 0 \<and>
      count_events is_close pre = 0 \<and>
      count_events is_reference pre = 4 \<and>
      count_events is_release pre = 5 \<and>
      G_object_ref (Obj_channel (channel ctx)) \<in> set pre \<and>
      G_object_ref (Obj_session (session ctx)) \<in> set pre \<and>
      G_object_ref (Obj_identity (identity ctx)) \<in> set pre \<and>
      (\<exists>ps. Ag_auth_data_ref ((auth_data ctx)\<lparr>parameters := ps\<rparr>) \<in> set pre) \<and>
      G_assert_not_reached \<notin> set pre \<and>
      count_events is_context_alloc (flow scenario_constants scenario_collaborators scenario_auth_fails scenario_handler
            (Some (scenario_channel EMPATHY_SASL_MECHANISM_GOOGLE)) (Some scenario_tp_account)) = 1 \<and>
      count_events is_context_free (flow scenario_constants scenario_collaborators scenario_auth_fails scenario_handler
            (Some (scenario_channel EMPATHY_SASL_MECHANISM_GOOGLE)) (Some scenario_tp_account)) = 1 \<and>
      count_events is_username_free (flow scenario_constants scenario_collaborators scenario_auth_fails scenario_handler
            (Some (scenario_channel EMPATHY_SASL_MECHANISM_GOOGLE)) (Some scenario_tp_account)) = 1 \<and>
      count_events is_close (flow scenario_constants scenario_collaborators scenario_auth_fails scenario_handler
            (Some (scenario_channel EMPATHY_SASL_MECHANISM_GOOGLE)) (Some scenario_tp_account)) = 1 \<and>
      count_events is_reference (flow scenario_constants scenario_collaborators scenario_auth_fails scenario_handler
            (Some (scenario_channel EMPATHY_SASL_MECHANISM_GOOGLE)) (Some scenario_tp_account)) = 4 \<and>
      count_events is_release (flow scenario_constants scenario_collaborators scenario_auth_fails scenario_handler
            (Some (scenario_channel EMPATHY_SASL_MECHANISM_GOOGLE)) (Some scenario_tp_account)) = 9 \<and>
      count_events is_null_release (flow scenario_constants scenario_collaborators scenario_auth_fails scenario_handler
            (Some (scenario_channel EMPATHY_SASL_MECHANISM_GOOGLE)) (Some scenario_tp_account)) = 0 \<and>
      count_events (references_of (Obj_channel (channel ctx))) (flow scenario_constants scenario_collaborators scenario_auth_fails scenario_handler
            (Some (scenario_channel EMPATHY_SASL_MECHANISM_GOOGLE)) (Some scenario_tp_account)) = 1 \<and>
      count_events (releases_of (Obj_channel (channel ctx))) (flow scenario_constants scenario_collaborators scenario_auth_fails scenario_handler
            (Some (scenario_channel EMPATHY_SASL_MECHANISM_GOOGLE)) (Some scenario_tp_account)) = 1 \<and>
      count_events (references_of (Obj_session (session ctx))) (flow scenario_constants scenario_collaborators scenario_auth_fails scenario_handler
            (Some (scenario_channel EMPATHY_SASL_MECHANISM_GOOGLE)) (Some scenario_tp_account)) = 1 \<and>
      count_events (releases_of (Obj_session (session ctx))) (flow scenario_constants scenario_collaborators scenario_auth_fails scenario_handler
            (Some (scenario_channel EMPATHY_SASL_MECHANISM_GOOGLE)) (Some scenario_tp_account)) = 2 \<and>
      count_events (references_of (Obj_identity (identity ctx))) (flow scenario_constants scenario_collaborators scenario_auth_fails scenario_handler
            (Some (scenario_channel EMPATHY_SASL_MECHANISM_GOOGLE)) (Some scenario_tp_account)) = 1 \<and>
      count_events (releases_of (Obj_identity (identity ctx))) (flow scenario_constants scenario_collaborators scenario_auth_fails scenario_handler
            (Some (scenario_channel EMPATHY_SASL_MECHANISM_GOOGLE)) (Some scenario_tp_account)) = 2 \<and>
      count_events is_auth_data_ref (flow scenario_constants scenario_collaborators scenario_auth_fails scenario_handler
            (Some (scenario_channel EMPATHY_SASL_MECHANISM_GOOGLE)) (Some scenario_tp_account)) = 1 \<and>
      count_events is_auth_data_unref (flow scenario_constants scenario_collaborators scenario_auth_fails scenario_handler
            (Some (scenario_channel EMPATHY_SASL_MECHANISM_GOOGLE)) (Some scenario_tp_account)) = 2 \<and>
      G_assert_not_reached \<notin> set (flow scenario_constants scenario_collaborators scenario_auth_fails scenario_handler
            (Some (scenario_channel EMPATHY_SASL_MECHANISM_GOOGLE)) (Some scenario_tp_account)))"
proof -
  have h: "G_slice_new0_AuthContext \<in> set (flow scenario_constants scenario_collaborators
      scenario_auth_fails scenario_handler
      (Some (scenario_channel EMPATHY_SASL_MECHANISM_GOOGLE)) (Some scenario_tp_account))"
    by (simp add: flow_def flow_steps_def Let_def
          start_queries [OF scenario_supports scenario_resolves scenario_one_service
            scenario_auth_data_of(1) scenario_session_created]
          auth_context_new_def)
  from h context_done_exactly_once [OF h] show ?thesis by (rule conjI)
qed

subsection \<open>Failure of session creation\<close>

text \<open>
  C5. When the account resolves and has an IM service, and session creation fails, the
  flow is what \<^verbatim>\<open>start\<close> issues and nothing more: the channel is closed, once, and
  there is no identity query and no session processing.
\<close>

theorem session_creation_failure_aborts:
  assumes "empathy_uoa_auth_handler_supports c self (Some ch) (Some acc)"
    and "manager self (g_value_get_uint (storage_identifier acc)) = Some a"
    and "ag_account_list_services_by_type a (EMPATHY_UOA_SERVICE_TYPE c) = sv # svs"
    and "ag_account_service_get_auth_data env (ag_account_service_new a sv) = ad"
    and "signon_identity_create_session env (signon_identity_new_from_db (credentials_id ad))
           (auth_method ad) = Inl e"
  shows "flow c env r self (Some ch) (Some acc) =
           empathy_uoa_auth_handler_start c env self (Some ch) (Some acc) \<and>
         count_events is_close (flow c env r self (Some ch) (Some acc)) = 1 \<and>
         Tp_channel_close_async ch \<in> set (flow c env r self (Some ch) (Some acc)) \<and>
         count_events is_identity_query (flow c env r self (Some ch) (Some acc)) = 0 \<and>
         count_events is_session_process (flow c env r self (Some ch) (Some acc)) = 0"
  by (simp add: flow_def flow_steps_def Let_def start_no_session [OF assms] start_cleanup_def)

theorem session_creation_failure_aborts_scenario:
  "flow scenario_constants scenario_no_session scenario_completions scenario_handler
     (Some (scenario_channel EMPATHY_SASL_MECHANISM_GOOGLE)) (Some scenario_tp_account) =
   empathy_uoa_auth_handler_start scenario_constants scenario_no_session scenario_handler
     (Some (scenario_channel EMPATHY_SASL_MECHANISM_GOOGLE)) (Some scenario_tp_account) \<and>
   count_events is_close (flow scenario_constants scenario_no_session scenario_completions
     scenario_handler (Some (scenario_channel EMPATHY_SASL_MECHANISM_GOOGLE))
     (Some scenario_tp_account)) = 1 \<and>
   Tp_channel_close_async (scenario_channel EMPATHY_SASL_MECHANISM_GOOGLE) \<in>
     set (flow scenario_constants scenario_no_session scenario_completions
       scenario_handler (Some (scenario_channel EMPATHY_SASL_MECHANISM_GOOGLE))
       (Some scenario_tp_account)) \<and>
   count_events is_identity_query (flow scenario_constants scenario_no_session scenario_completions
     scenario_handler (Some (scenario_channel EMPATHY_SASL_MECHANISM_GOOGLE))
     (Some scenario_tp_account)) = 0 \<and>
   count_events is_session_process (flow scenario_constants scenario_no_session scenario_completions
     scenario_handler (Some (scenario_channel EMPATHY_SASL_MECHANISM_GOOGLE))
     (Some scenario_tp_account)) = 0"
  by (rule session_creation_failure_aborts [OF scenario_supports scenario_resolves scenario_one_service
      scenario_auth_data_of(2) scenario_session_fails])

subsection \<open>Failure of the identity query\<close>

text \<open>
  C6. The callback of the identity query, given an error, is \<open>auth_context_done\<close>. So in
  a flow whose identity query completes with an error, the step after \<^verbatim>\<open>start\<close>
  closes the channel and releases the context, the two steps after it are empty, and the
  flow holds no session-processing call.
\<close>

theorem identity_query_error_aborts:
  assumes "empathy_uoa_auth_handler_supports c self (Some ch) (Some acc)"
    and "manager self (g_value_get_uint (storage_identifier acc)) = Some a"
    and "ag_account_list_services_by_type a (EMPATHY_UOA_SERVICE_TYPE c) = sv # svs"
    and "ag_account_service_get_auth_data env (ag_account_service_new a sv) = ad"
    and "signon_identity_create_session env (signon_identity_new_from_db (credentials_id ad))
           (auth_method ad) = Inr s"
    and "snd (query_info_result r) = Some e"
  shows "identity_query_info_cb i info (Some e) ctx = auth_context_done ctx \<and>
         flow_steps c env r self (Some ch) (Some acc) =
           [empathy_uoa_auth_handler_start c env self (Some ch) (Some acc),
            auth_context_done
              \<lparr>channel = ch, auth_data = ad, session = s,
               identity = signon_identity_new_from_db (credentials_id ad), username = None\<rparr>,
            [], []] \<and>
         count_events is_close (flow c env r self (Some ch) (Some acc)) = 1 \<and>
         count_events is_context_free (flow c env r self (Some ch) (Some acc)) = 1 \<and>
         count_events is_session_process (flow c env r self (Some ch) (Some acc)) = 0"
proof -
  have cb: "identity_query_info_cb i' info' (Some e) ctx' = auth_context_done ctx'" for i' info' ctx'
    by (simp add: identity_query_info_cb_def)
  have steps: "flow_steps c env r self (Some ch) (Some acc) =
           [empathy_uoa_auth_handler_start c env self (Some ch) (Some acc),
            auth_context_done
              \<lparr>channel = ch, auth_data = ad, session = s,
               identity = signon_identity_new_from_db (credentials_id ad), username = None\<rparr>,
            [], []]"
    using assms(6)
    by (simp add: flow_steps_def Let_def resume_start_queries [OF assms(1-5)] cb)
  show ?thesis
    by (simp add: cb flow_def steps start_queries [OF assms(1-5)] auth_context_new_def
          start_cleanup_def auth_context_done_def auth_context_free_def)
qed

theorem identity_query_error_aborts_scenario:
  "count_events is_close (flow scenario_constants scenario_collaborators scenario_query_fails
     scenario_handler (Some (scenario_channel EMPATHY_SASL_MECHANISM_GOOGLE))
     (Some scenario_tp_account)) = 1 \<and>
   count_events is_context_free (flow scenario_constants scenario_collaborators scenario_query_fails
     scenario_handler (Some (scenario_channel EMPATHY_SASL_MECHANISM_GOOGLE))
     (Some scenario_tp_account)) = 1 \<and>
   count_events is_session_process (flow scenario_constants scenario_collaborators scenario_query_fails
     scenario_handler (Some (scenario_channel EMPATHY_SASL_MECHANISM_GOOGLE))
     (Some scenario_tp_account)) = 0"
proof -
  have q: "snd (query_info_result scenario_query_fails) = Some scenario_error"
    by (simp add: scenario_query_fails_def)
  show ?thesis
    using identity_query_error_aborts [OF scenario_supports scenario_resolves scenario_one_service
        scenario_auth_data_of(1) scenario_session_created q]
    by blast
qed

subsection \<open>The identity query, and when the channel is closed\<close>

text \<open>
  C7. The claim as stated has the channel open until the completion of the mechanism
  authentication in every flow that \<^verbatim>\<open>start\<close> carries as far as the identity query.
  In the scenario with a failing identity query the conditions hold (the account
  resolves, it has one IM service, the session is created), the completion of the
  identity query closes the channel, and no mechanism authentication is ever issued.
\<close>

theorem closed_before_mechanism_auth:
  "manager scenario_handler (g_value_get_uint (storage_identifier scenario_tp_account)) =
     Some scenario_account \<and>
   ag_account_list_services_by_type scenario_account (EMPATHY_UOA_SERVICE_TYPE scenario_constants) =
     [scenario_service] \<and>
   signon_identity_create_session scenario_collaborators scenario_identity
     (auth_method scenario_auth_data) = Inr scenario_session \<and>
   flow_steps scenario_constants scenario_collaborators scenario_query_fails scenario_handler
     (Some (scenario_channel EMPATHY_SASL_MECHANISM_GOOGLE)) (Some scenario_tp_account) ! 1 =
     auth_context_done ((scenario_context EMPATHY_SASL_MECHANISM_GOOGLE)\<lparr>username := None\<rparr>) \<and>
   count_events is_close
     (flow_steps scenario_constants scenario_collaborators scenario_query_fails scenario_handler
        (Some (scenario_channel EMPATHY_SASL_MECHANISM_GOOGLE)) (Some scenario_tp_account) ! 1) = 1 \<and>
   count_events is_mechanism_auth
     (flow scenario_constants scenario_collaborators scenario_query_fails scenario_handler
        (Some (scenario_channel EMPATHY_SASL_MECHANISM_GOOGLE)) (Some scenario_tp_account)) = 0"
proof -
  have q: "snd (query_info_result scenario_query_fails) = Some scenario_error"
    by (simp add: scenario_query_fails_def)
  have s: "signon_identity_create_session scenario_collaborators scenario_identity
     (auth_method scenario_auth_data) = Inr scenario_session"
    by (simp add: scenario_collaborators_def)
  have steps: "flow_steps scenario_constants scenario_collaborators scenario_query_fails
      scenario_handler (Some (scenario_channel EMPATHY_SASL_MECHANISM_GOOGLE))
      (Some scenario_tp_account) =
     [empathy_uoa_auth_handler_start scenario_constants scenario_collaborators scenario_handler
        (Some (scenario_channel EMPATHY_SASL_MECHANISM_GOOGLE)) (Some scenario_tp_account),
      auth_context_done ((scenario_context EMPATHY_SASL_MECHANISM_GOOGLE)\<lparr>username := None\<rparr>),
      [], []]"
    by (simp add: flow_steps_started [OF scenario_supports scenario_resolves scenario_one_service
          scenario_auth_data_of(1) scenario_session_created refl refl] q
          identity_query_info_cb_def scenario_identity_of scenario_context_def)
  have t0: "count_events is_mechanism_auth
     (empathy_uoa_auth_handler_start scenario_constants scenario_collaborators scenario_handler
        (Some (scenario_channel EMPATHY_SASL_MECHANISM_GOOGLE)) (Some scenario_tp_account)) = 0"
    by (simp add: start_queries [OF scenario_supports scenario_resolves scenario_one_service
          scenario_auth_data_of(1) scenario_session_created] auth_context_new_def start_cleanup_def)
  show ?thesis
    by (simp add: scenario_resolves scenario_one_service s flow_def steps t0
          auth_context_done_def auth_context_free_def)
qed

text \<open>
  C7, amended. For every \<^verbatim>\<open>start\<close> on an account that resolves and has exactly
  one IM service, with a session that is created, \<^verbatim>\<open>start\<close> issues exactly one
  identity query, the whole flow holds no other, and \<^verbatim>\<open>start\<close> does not close the
  channel. When the identity query and session processing complete without error, the
  channel is not closed before the completion of the mechanism authentication: the
  steps of the two callbacks hold no close, the second issues the mechanism
  authentication, and the last step, \<^verbatim>\<open>auth_cb\<close>, closes the channel once. When the
  identity query completes with an error, its completion closes the channel, the later
  steps are empty and no mechanism authentication is issued. When the identity query
  succeeds and session processing completes with an error, the completion of the
  identity query holds no close, the completion of session processing closes the
  channel, the last step is empty and no mechanism authentication is issued. In every
  case the flow closes the channel exactly once.
\<close>

theorem identity_query_issued_once:
  assumes "empathy_uoa_auth_handler_supports c self (Some ch) (Some acc)"
    and "manager self (g_value_get_uint (storage_identifier acc)) = Some a"
    and "ag_account_list_services_by_type a (EMPATHY_UOA_SERVICE_TYPE c) = [sv]"
    and "ag_account_service_get_auth_data env (ag_account_service_new a sv) = ad"
    and "signon_identity_create_session env (signon_identity_new_from_db (credentials_id ad))
           (auth_method ad) = Inr s"
  shows "count_events is_identity_query
           (empathy_uoa_auth_handler_start c env self (Some ch) (Some acc)) = 1 \<and>
         count_events is_identity_query (flow c env r self (Some ch) (Some acc)) = 1 \<and>
         count_events is_close (empathy_uoa_auth_handler_start c env self (Some ch) (Some acc)) = 0 \<and>
         (snd (query_info_result r) = None \<and> snd (session_process_result r) = None \<longrightarrow>
            count_events is_close (flow_steps c env r self (Some ch) (Some acc) ! 1) = 0 \<and>
            count_events is_close (flow_steps c env r self (Some ch) (Some acc) ! 2) = 0 \<and>
            count_events is_mechanism_auth (flow_steps c env r self (Some ch) (Some acc) ! 2) = 1 \<and>
            flow_steps c env r self (Some ch) (Some acc) ! 3 =
              auth_cb c ch (auth_result r)
                \<lparr>channel = ch, auth_data = ad, session = s,
                 identity = signon_identity_new_from_db (credentials_id ad),
                 username = signon_identity_info_get_username (fst (query_info_result r))\<rparr> \<and>
            count_events is_close (flow_steps c env r self (Some ch) (Some acc) ! 3) = 1) \<and>
         (snd (query_info_result r) \<noteq> None \<longrightarrow>
            count_events is_close (flow_steps c env r self (Some ch) (Some acc) ! 1) = 1 \<and>
            flow_steps c env r self (Some ch) (Some acc) ! 2 = [] \<and>
            flow_steps c env r self (Some ch) (Some acc) ! 3 = [] \<and>
            count_events is_mechanism_auth (flow c env r self (Some ch) (Some acc)) = 0) \<and>
         (snd (query_info_result r) = None \<and> snd (session_process_result r) \<noteq> None \<longrightarrow>
            count_events is_close (flow_steps c env r self (Some ch) (Some acc) ! 1) = 0 \<and>
            count_events is_close (flow_steps c env r self (Some ch) (Some acc) ! 2) = 1 \<and>
            flow_steps c env r self (Some ch) (Some acc) ! 3 = [] \<and>
            count_events is_mechanism_auth (flow c env r self (Some ch) (Some acc)) = 0) \<and>
         count_events is_close (flow c env r self (Some ch) (Some acc)) = 1"
proof -
  define ctx0 where "ctx0 = \<lparr>channel = ch, auth_data = ad, session = s,
      identity = signon_identity_new_from_db (credentials_id ad), username = None\<rparr>"
  define ctx1 where
    "ctx1 = ctx0\<lparr>username := signon_identity_info_get_username (fst (query_info_result r))\<rparr>"
  note steps = flow_steps_started [OF assms ctx0_def ctx1_def]
  note t0 = start_queries [OF assms]
  have m: "empathy_sasl_channel_select_mechanism ch = EMPATHY_SASL_MECHANISM_FACEBOOK \<or>
           empathy_sasl_channel_select_mechanism ch = EMPATHY_SASL_MECHANISM_WLM \<or>
           empathy_sasl_channel_select_mechanism ch = EMPATHY_SASL_MECHANISM_GOOGLE"
    using assms(1) by (simp add: empathy_uoa_auth_handler_supports_def Let_def split: if_splits)
  have a: "count_events is_identity_query
           (empathy_uoa_auth_handler_start c env self (Some ch) (Some acc)) = 1 \<and>
           count_events is_close (empathy_uoa_auth_handler_start c env self (Some ch) (Some acc)) = 0 \<and>
           count_events is_mechanism_auth
             (empathy_uoa_auth_handler_start c env self (Some ch) (Some acc)) = 0"
    by (simp add: t0 auth_context_new_def start_cleanup_def)
  have b: "count_events is_identity_query (flow c env r self (Some ch) (Some acc)) = 1"
    using a by (simp add: flow_def steps no_query_in_callbacks)
  have d: "count_events is_close (auth_cb c ch res ctx) = 1 \<and>
           count_events is_mechanism_auth (auth_cb c ch res ctx) = 0" for res ctx
    by (simp add: auth_cb_def Let_def auth_context_done_def auth_context_free_def)
  have e: "count_events is_close (session_process_cb s x None ctx1) = 0 \<and>
           count_events is_mechanism_auth (session_process_cb s x None ctx1) = 1" for x
    using m by (auto simp add: session_process_cb_def Let_def ctx1_def ctx0_def)
  have e': "count_events is_close (session_process_cb s x (Some err) ctx1) = 1 \<and>
            count_events is_mechanism_auth (session_process_cb s x (Some err) ctx1) = 0" for x err
    by (simp add: session_process_cb_def auth_context_done_def auth_context_free_def)
  have f: "count_events is_close (identity_query_info_cb i x None ctx0) = 0 \<and>
           count_events is_mechanism_auth (identity_query_info_cb i x None ctx0) = 0" for i x
    by (simp add: identity_query_info_cb_def Let_def)
  have f': "count_events is_close (identity_query_info_cb i x (Some err) ctx0) = 1 \<and>
            count_events is_mechanism_auth (identity_query_info_cb i x (Some err) ctx0) = 0" for i x err
    by (simp add: identity_query_info_cb_def auth_context_done_def auth_context_free_def)
  have c1: "\<lparr>channel = ch, auth_data = ad, session = s,
              identity = signon_identity_new_from_db (credentials_id ad),
              username = signon_identity_info_get_username (fst (query_info_result r))\<rparr> = ctx1"
    by (simp add: ctx1_def ctx0_def)
  show ?thesis
  proof (cases "snd (query_info_result r)")
    case None
    show ?thesis
    proof (cases "snd (session_process_result r)")
      case pn: None
      show ?thesis unfolding c1 using a b by (simp add: flow_def steps None pn d e f)
    next
      case (Some err)
      show ?thesis unfolding c1 using a b by (simp add: flow_def steps None Some e' f)
    qed
  next
    case (Some err)
    show ?thesis unfolding c1 using a b by (simp add: flow_def steps Some f')
  qed
qed

text \<open>
  The three cases on the scenario: every step succeeds, the identity query fails, and
  session processing fails.
\<close>

theorem identity_query_issued_once_scenario:
  "count_events is_identity_query
     (empathy_uoa_auth_handler_start scenario_constants scenario_collaborators scenario_handler
        (Some (scenario_channel EMPATHY_SASL_MECHANISM_GOOGLE)) (Some scenario_tp_account)) = 1 \<and>
   count_events is_identity_query
     (flow scenario_constants scenario_collaborators scenario_completions scenario_handler
        (Some (scenario_channel EMPATHY_SASL_MECHANISM_GOOGLE)) (Some scenario_tp_account)) = 1 \<and>
   count_events is_close
     (empathy_uoa_auth_handler_start scenario_constants scenario_collaborators scenario_handler
        (Some (scenario_channel EMPATHY_SASL_MECHANISM_GOOGLE)) (Some scenario_tp_account)) = 0 \<and>
   count_events is_close
     (flow_steps scenario_constants scenario_collaborators scenario_completions scenario_handler
        (Some (scenario_channel EMPATHY_SASL_MECHANISM_GOOGLE)) (Some scenario_tp_account) ! 1) = 0 \<and>
   count_events is_close
     (flow_steps scenario_constants scenario_collaborators scenario_completions scenario_handler
        (Some (scenario_channel EMPATHY_SASL_MECHANISM_GOOGLE)) (Some scenario_tp_account) ! 2) = 0 \<and>
   count_events is_close
     (flow_steps scenario_constants scenario_collaborators scenario_completions scenario_handler
        (Some (scenario_channel EMPATHY_SASL_MECHANISM_GOOGLE)) (Some scenario_tp_account) ! 3) = 1 \<and>
   count_events is_close
     (flow scenario_constants scenario_collaborators scenario_completions scenario_handler
        (Some (scenario_channel EMPATHY_SASL_MECHANISM_GOOGLE)) (Some scenario_tp_account)) = 1 \<and>
   count_events is_close
     (flow_steps scenario_constants scenario_collaborators scenario_query_fails scenario_handler
        (Some (scenario_channel EMPATHY_SASL_MECHANISM_GOOGLE)) (Some scenario_tp_account) ! 1) = 1 \<and>
   count_events is_close
     (flow scenario_constants scenario_collaborators scenario_query_fails scenario_handler
        (Some (scenario_channel EMPATHY_SASL_MECHANISM_GOOGLE)) (Some scenario_tp_account)) = 1 \<and>
   count_events is_mechanism_auth
     (flow scenario_constants scenario_collaborators scenario_query_fails scenario_handler
        (Some (scenario_channel EMPATHY_SASL_MECHANISM_GOOGLE)) (Some scenario_tp_account)) = 0 \<and>
   count_events is_close
     (flow_steps scenario_constants scenario_collaborators scenario_process_fails scenario_handler
        (Some (scenario_channel EMPATHY_SASL_MECHANISM_GOOGLE)) (Some scenario_tp_account) ! 1) = 0 \<and>
   count_events is_close
     (flow_steps scenario_constants scenario_collaborators scenario_process_fails scenario_handler
        (Some (scenario_channel EMPATHY_SASL_MECHANISM_GOOGLE)) (Some scenario_tp_account) ! 2) = 1 \<and>
   count_events is_close
     (flow scenario_constants scenario_collaborators scenario_process_fails scenario_handler
        (Some (scenario_channel EMPATHY_SASL_MECHANISM_GOOGLE)) (Some scenario_tp_account)) = 1 \<and>
   count_events is_mechanism_auth
     (flow scenario_constants scenario_collaborators scenario_process_fails scenario_handler
        (Some (scenario_channel EMPATHY_SASL_MECHANISM_GOOGLE)) (Some scenario_tp_account)) = 0"
proof -
  have q0: "snd (query_info_result scenario_completions) = None \<and>
            snd (session_process_result scenario_completions) = None"
    by (simp add: scenario_completions_def)
  have q1: "snd (query_info_result scenario_query_fails) \<noteq> None"
    by (simp add: scenario_query_fails_def)
  have q2: "snd (query_info_result scenario_process_fails) = None \<and>
            snd (session_process_result scenario_process_fails) \<noteq> None"
    by (simp add: scenario_process_fails_def scenario_completions_def)
  note th = identity_query_issued_once [OF scenario_supports scenario_resolves scenario_one_service
        scenario_auth_data_of(1) scenario_session_created]
  show ?thesis
    using q0 q1 q2 th [of scenario_completions] th [of scenario_query_fails]
      th [of scenario_process_fails]
    by blast
qed

subsection \<open>The assertion of the dispatch\<close>

text \<open>
  C8. When \<^verbatim>\<open>supports\<close> held for the channel, and the mechanism selected for the
  channel of the context is the one selected then, the completion of session processing
  does not reach \<^verbatim>\<open>g_assert_not_reached\<close>.
\<close>

theorem dispatch_default_unreachable:
  assumes "empathy_uoa_auth_handler_supports c self (Some ch) (Some acc)"
    and "empathy_sasl_channel_select_mechanism (channel ctx) =
         empathy_sasl_channel_select_mechanism ch"
  shows "G_assert_not_reached \<notin> set (session_process_cb s session_data error ctx)"
  using assms
  by (auto simp add: empathy_uoa_auth_handler_supports_def session_process_cb_def Let_def
        auth_context_done_def auth_context_free_def split: if_splits)

theorem dispatch_default_unreachable_scenario:
  "G_assert_not_reached \<notin> set (session_process_cb scenario_session
      [''AccessToken'' \<mapsto> GString ''tok123''] None (scenario_context EMPATHY_SASL_MECHANISM_GOOGLE))"
proof -
  have "empathy_sasl_channel_select_mechanism (channel (scenario_context EMPATHY_SASL_MECHANISM_GOOGLE)) =
        empathy_sasl_channel_select_mechanism (scenario_channel EMPATHY_SASL_MECHANISM_GOOGLE)"
    by (simp add: scenario_context_def)
  from dispatch_default_unreachable [OF scenario_supports this] show ?thesis .
qed

subsection \<open>The abort paths of start\<close>

text \<open>
  C9. An abort path of \<^verbatim>\<open>start\<close> closes the channel and returns; it should release
  only the handles it obtained. The code does close the channel, but it passes
  \<^verbatim>\<open>NULL\<close> to \<^verbatim>\<open>g_object_unref\<close> on two of the paths: the account, when the
  manager does not know the account id, and the session, when session creation failed.
  Both are shown on the scenario.
\<close>

theorem start_abort_releases_null:
  "empathy_uoa_auth_handler_start scenario_constants scenario_collaborators
     \<lparr>manager = (\<lambda>n. None)\<rparr>
     (Some (scenario_channel EMPATHY_SASL_MECHANISM_GOOGLE)) (Some scenario_tp_account) =
     [G_object_unref None, Tp_channel_close_async (scenario_channel EMPATHY_SASL_MECHANISM_GOOGLE)] \<and>
   count_events is_null_release
     (empathy_uoa_auth_handler_start scenario_constants scenario_collaborators
        \<lparr>manager = (\<lambda>n. None)\<rparr>
        (Some (scenario_channel EMPATHY_SASL_MECHANISM_GOOGLE)) (Some scenario_tp_account)) = 1 \<and>
   empathy_uoa_auth_handler_start scenario_constants scenario_no_session scenario_handler
     (Some (scenario_channel EMPATHY_SASL_MECHANISM_GOOGLE)) (Some scenario_tp_account) =
     [Ag_service_list_free [scenario_service],
      G_object_unref (Some (Obj_account scenario_account)),
      Tp_channel_close_async (scenario_channel EMPATHY_SASL_MECHANISM_GOOGLE),
      Ag_auth_data_unref scenario_auth_data,
      G_object_unref (Some (Obj_account_service
         \<lparr>as_account = scenario_account, as_service = scenario_service\<rparr>)),
      G_object_unref (Some (Obj_identity scenario_identity)),
      G_object_unref None] \<and>
   count_events is_null_release
     (empathy_uoa_auth_handler_start scenario_constants scenario_no_session scenario_handler
        (Some (scenario_channel EMPATHY_SASL_MECHANISM_GOOGLE)) (Some scenario_tp_account)) = 1"
proof -
  have g: "empathy_uoa_auth_handler_supports scenario_constants \<lparr>manager = (\<lambda>n. None)\<rparr>
     (Some (scenario_channel EMPATHY_SASL_MECHANISM_GOOGLE)) (Some scenario_tp_account)"
    using scenario_supports by (simp add: empathy_uoa_auth_handler_supports_def)
  have a: "empathy_uoa_auth_handler_start scenario_constants scenario_collaborators
     \<lparr>manager = (\<lambda>n. None)\<rparr>
     (Some (scenario_channel EMPATHY_SASL_MECHANISM_GOOGLE)) (Some scenario_tp_account) =
     [G_object_unref None, Tp_channel_close_async (scenario_channel EMPATHY_SASL_MECHANISM_GOOGLE)]"
    using g by (simp add: empathy_uoa_auth_handler_start_def)
  have b: "empathy_uoa_auth_handler_start scenario_constants scenario_no_session scenario_handler
     (Some (scenario_channel EMPATHY_SASL_MECHANISM_GOOGLE)) (Some scenario_tp_account) =
     [Ag_service_list_free [scenario_service],
      G_object_unref (Some (Obj_account scenario_account)),
      Tp_channel_close_async (scenario_channel EMPATHY_SASL_MECHANISM_GOOGLE),
      Ag_auth_data_unref scenario_auth_data,
      G_object_unref (Some (Obj_account_service
         \<lparr>as_account = scenario_account, as_service = scenario_service\<rparr>)),
      G_object_unref (Some (Obj_identity scenario_identity)),
      G_object_unref None]"
    by (simp add: start_no_session [OF scenario_supports scenario_resolves scenario_one_service
          scenario_auth_data_of(2) scenario_session_fails] start_cleanup_def scenario_identity_of
          ag_account_service_new_def)
  show ?thesis
    unfolding a b by simp
qed

subsection \<open>Missing access token or client id\<close>

text \<open>
  C10. When session processing succeeds and the mechanism is one of the three, the
  dispatch is still the only call issued if the session data has no "AccessToken" entry,
  or the parameters of the auth data have no "ClientId" entry: \<^verbatim>\<open>NULL\<close> stands
  for the missing value. The access token is read from the session data, the client id
  from the parameters of the auth data.
\<close>

theorem missing_token_or_client_id:
  assumes "empathy_sasl_channel_select_mechanism (channel ctx) = EMPATHY_SASL_MECHANISM_FACEBOOK \<or>
           empathy_sasl_channel_select_mechanism (channel ctx) = EMPATHY_SASL_MECHANISM_WLM \<or>
           empathy_sasl_channel_select_mechanism (channel ctx) = EMPATHY_SASL_MECHANISM_GOOGLE"
  shows "(session_data ''AccessToken'' = None \<longrightarrow>
            session_process_cb s session_data None ctx =
              (if empathy_sasl_channel_select_mechanism (channel ctx) = EMPATHY_SASL_MECHANISM_FACEBOOK
               then [Empathy_sasl_auth_facebook_async (channel ctx)
                       (tp_asv_get_string (parameters (auth_data ctx)) ''ClientId'') None Auth_cb ctx]
               else if empathy_sasl_channel_select_mechanism (channel ctx) = EMPATHY_SASL_MECHANISM_WLM
               then [Empathy_sasl_auth_wlm_async (channel ctx) None Auth_cb ctx]
               else [Empathy_sasl_auth_google_async (channel ctx) (username ctx) None Auth_cb ctx])) \<and>
         (parameters (auth_data ctx) ''ClientId'' = None \<longrightarrow>
            session_process_cb s session_data None ctx =
              (if empathy_sasl_channel_select_mechanism (channel ctx) = EMPATHY_SASL_MECHANISM_FACEBOOK
               then [Empathy_sasl_auth_facebook_async (channel ctx) None
                       (tp_asv_get_string session_data ''AccessToken'') Auth_cb ctx]
               else if empathy_sasl_channel_select_mechanism (channel ctx) = EMPATHY_SASL_MECHANISM_WLM
               then [Empathy_sasl_auth_wlm_async (channel ctx)
                       (tp_asv_get_string session_data ''AccessToken'') Auth_cb ctx]
               else [Empathy_sasl_auth_google_async (channel ctx) (username ctx)
                       (tp_asv_get_string session_data ''AccessToken'') Auth_cb ctx]))"
  using assms
  by (auto simp add: session_process_cb_def tp_asv_get_string_def Let_def)

text \<open>
  The scenario with FACEBOOK, no parameter in the auth data and session data that hold a
  "ClientId" but no "AccessToken": both arguments of the call are \<^verbatim>\<open>NULL\<close>.
\<close>

theorem missing_token_or_client_id_scenario:
  "session_process_cb scenario_session [''ClientId'' \<mapsto> GString ''other'']  None
     ((scenario_context EMPATHY_SASL_MECHANISM_FACEBOOK)
        \<lparr>auth_data := scenario_auth_data\<lparr>parameters := Map.empty\<rparr>\<rparr>) =
   [Empathy_sasl_auth_facebook_async (scenario_channel EMPATHY_SASL_MECHANISM_FACEBOOK) None None Auth_cb
      ((scenario_context EMPATHY_SASL_MECHANISM_FACEBOOK)
        \<lparr>auth_data := scenario_auth_data\<lparr>parameters := Map.empty\<rparr>\<rparr>)]"
  using missing_token_or_client_id [of
      "(scenario_context EMPATHY_SASL_MECHANISM_FACEBOOK)
        \<lparr>auth_data := scenario_auth_data\<lparr>parameters := Map.empty\<rparr>\<rparr>"
      "[''ClientId'' \<mapsto> GString ''other'']" scenario_session]
  by (simp add: scenario_context_def scenario_channel_def empathy_sasl_channel_select_mechanism_def
        tp_asv_get_string_def)

end
